theory Spec2Isabelle
  imports Main "HOL-Library.Word"
begin

unbundle bit_operations_syntax

section \<open>Values, bytes and Python exceptions\<close>

text \<open>
  Python's integers are unbounded: they are \<open>int\<close> here. A \<open>bytes\<close> or
  \<open>bytearray\<close> value is a list of 8-bit words. Every exception a modelled
  function can raise is a constructor of \<open>error\<close>; a function that can raise
  returns \<open>error + 'a\<close> with \<open>Inl\<close> for the exception.
\<close>

type_synonym byte = "8 word"

datatype error =
    IndexError | AttributeError | TypeError | OverflowError
  | OSError | UnsupportedOperation | UnicodeDecodeError
  | ValueError | RuntimeError | MemoryFault | RegisterFault

definition andThen :: "error + 'a \<Rightarrow> ('a \<Rightarrow> error + 'b) \<Rightarrow> error + 'b" where
  "andThen m f = (case m of Inl e \<Rightarrow> Inl e | Inr x \<Rightarrow> f x)"

text \<open>
  \<open>util.to_int\<close>: \<open>int.from_bytes(data, 'little', signed=signed)\<close>.
\<close>

fun from_bytes_le :: "byte list \<Rightarrow> int" where
  "from_bytes_le [] = 0"
| "from_bytes_le (b # bs) = uint b + 256 * from_bytes_le bs"

definition to_int :: "byte list \<Rightarrow> bool \<Rightarrow> int" where
  "to_int data is_signed =
     (let v = from_bytes_le data in
      if is_signed \<and> data \<noteq> [] \<and> 2 ^ (8 * length data - 1) \<le> v
      then v - 2 ^ (8 * length data) else v)"

text \<open>
  \<open>int.to_bytes(n, 'little')\<close>: the \<open>n\<close> little-endian bytes of a value that
  fits, OverflowError for a negative value or one that does not fit.
\<close>

fun le_bytes :: "nat \<Rightarrow> int \<Rightarrow> byte list" where
  "le_bytes 0 v = []"
| "le_bytes (Suc n) v = word_of_int v # le_bytes n (v div 256)"

definition to_bytes :: "int \<Rightarrow> nat \<Rightarrow> error + byte list" where
  "to_bytes v n = (if 0 \<le> v \<and> v < 256 ^ n then Inr (le_bytes n v) else Inl OverflowError)"

section \<open>Guest state\<close>

text \<open>
  An open host stream, as the file-descriptor table holds it; \<open>None\<close> in the table
  is the source's free sentinel.
\<close>

datatype stream = Stdin | Stdout | Stderr | HostFile nat

text \<open>
  The VM object. The classes behind \<open>self.mem\<close> and \<open>self.reg\<close> (module CPU)
  are not among the sources; their fields are flattened into this record.
  \<open>mem\<close> is the fixed-size byte store with its \<open>program_break\<close>; \<open>reg\<close> maps
  a register number (0 = EAX, 1 = ECX, 2 = EDX, 3 = EBX, 4 = ESP, 5 = EBP, 6 = ESI,
  7 = EDI) to its 32-bit cell.
\<close>

record vm =
  mem :: "byte list"
  program_break :: int
  code_segment_end :: int
  reg :: "nat \<Rightarrow> 32 word"
  eip :: int
  current_mode :: nat
  descriptors :: "stream option list"
  running :: bool
  RETCODE :: "int option"

subsection \<open>Memory\<close>

text \<open>
  Modelled from the spec: class Memory (module CPU) is not among the sources. The
  spec gives a fixed-size, byte-addressable flat store. \<open>mem.get(addr, n)\<close> reads
  \<open>n\<close> bytes at \<open>addr\<close> and \<open>mem.set(addr, data)\<close> writes \<open>data\<close> there; an
  access that leaves the store is the error \<open>MemoryFault\<close>. Modules internals and
  __init__ pass the result of \<open>mem.get\<close> to \<open>to_int\<close>: there it is the byte
  string. Module kernel uses \<open>mem.get_bytes\<close> and \<open>mem.set_bytes\<close> for byte
  strings (\<open>mem_get\<close> and \<open>mem_set\<close> here) and compares \<open>mem.get(addr, 1)\<close>
  with 0: there it is the number, \<open>to_int\<close> of the bytes.
\<close>

definition in_bounds :: "vm \<Rightarrow> int \<Rightarrow> int \<Rightarrow> bool" where
  "in_bounds s addr n = (0 \<le> addr \<and> 0 \<le> n \<and> addr + n \<le> int (length (mem s)))"

definition mem_get :: "vm \<Rightarrow> int \<Rightarrow> nat \<Rightarrow> error + byte list" where
  "mem_get s addr n =
     (if in_bounds s addr (int n) then Inr (take n (drop (nat addr) (mem s)))
      else Inl MemoryFault)"

definition mem_set :: "vm \<Rightarrow> int \<Rightarrow> byte list \<Rightarrow> error + vm" where
  "mem_set s addr data =
     (if in_bounds s addr (int (length data))
      then Inr (s\<lparr>mem := take (nat addr) (mem s) @ data @
                         drop (nat addr + length data) (mem s)\<rparr>)
      else Inl MemoryFault)"

subsection \<open>Registers\<close>

text \<open>
  Modelled from the spec: the register file class (module CPU) is not among the
  sources. The spec gives 8 slots of 32 bits, read and written at 1, 2 or 4 bytes with
  the x86 sub-register aliasing: at 2 and 4 bytes slot \<open>r\<close> is the low part of cell
  \<open>r\<close>; at 1 byte slots 0..3 are the low bytes of cells 0..3 (AL, CL, DL, BL) and slots
  4..7 the second bytes of the same cells (AH, CH, DH, BH). A register number above 7 or
  a width outside 1, 2, 4 is the error \<open>RegisterFault\<close>.
  \<open>reg.get(r, n)\<close> returns the bytes, \<open>reg.set(r, data)\<close> writes \<open>len(data)\<close>
  bytes and leaves the rest of the cell as it was.
\<close>

definition reg_cell :: "int \<Rightarrow> nat \<Rightarrow> nat" where
  "reg_cell r n = (if n = 1 \<and> 4 \<le> r then nat r - 4 else nat r)"

definition reg_shift :: "int \<Rightarrow> nat \<Rightarrow> nat" where
  "reg_shift r n = (if n = 1 \<and> 4 \<le> r then 1 else 0)"

definition reg_get :: "vm \<Rightarrow> int \<Rightarrow> nat \<Rightarrow> error + byte list" where
  "reg_get s r n =
     (if 0 \<le> r \<and> r < 8 \<and> n \<in> {1, 2, 4}
      then Inr (le_bytes n (uint (reg s (reg_cell r n)) div 256 ^ reg_shift r n))
      else Inl RegisterFault)"

definition splice :: "int \<Rightarrow> nat \<Rightarrow> nat \<Rightarrow> int \<Rightarrow> int" where
  \<comment> \<open>\<open>splice old k n v\<close>: \<open>old\<close> with its \<open>n\<close> bytes from byte \<open>k\<close> on replaced by \<open>v\<close>\<close>
  "splice old k n v =
     old mod 256 ^ k + 256 ^ k * (v mod 256 ^ n) + 256 ^ (k + n) * (old div 256 ^ (k + n))"

definition reg_set :: "vm \<Rightarrow> int \<Rightarrow> byte list \<Rightarrow> error + vm" where
  "reg_set s r data =
     (let n = length data in
      if 0 \<le> r \<and> r < 8 \<and> n \<in> {1, 2, 4}
      then Inr (s\<lparr>reg := (reg s)(reg_cell r n :=
                  word_of_int (splice (uint (reg s (reg_cell r n))) (reg_shift r n) n
                                 (from_bytes_le data)))\<rparr>)
      else Inl RegisterFault)"

section \<open>Operand resolver and stack\<close>

text \<open>
  An operand descriptor of the resolver: \<open>RM = (type, loc, size)\<close>, where
  \<open>type\<close> is false for a register number in \<open>loc\<close> and true for a memory address;
  \<open>R = (class tag, register or sub-opcode number, size)\<close>, read as \<open>R[1]\<close> and
  \<open>R[2]\<close> by the callers.
\<close>

type_synonym rm_descr = "bool \<times> int \<times> nat"
type_synonym r_descr = "nat \<times> nat \<times> nat"

definition fetch :: "nat \<Rightarrow> bool \<Rightarrow> vm \<Rightarrow> error + int \<times> vm" where
  \<comment> \<open>read \<open>n\<close> bytes at the instruction pointer as a number and move past them\<close>
  "fetch n is_signed s =
     andThen (mem_get s (eip s) n) (\<lambda>bs. Inr (to_int bs is_signed, s\<lparr>eip := eip s + int n\<rparr>))"

text \<open>
  Modelled from the spec: \<open>process_ModRM\<close> (module misc) is not among the sources.
  The spec's contract: one ModRM byte is consumed at the instruction pointer; its
  fields are mod (bits 7..6), reg (bits 5..3) and rm (bits 2..0); mod = 3 is
  register-direct, with no displacement consumed and no memory touched; mod 0, 1, 2
  compute an address from a base, plus index and displacement as encoded, and
  mod = 0 with rm = 5 is a pure 32-bit displacement. The address forms follow the
  32-bit x86 rules: rm = 4 announces a scale-index-base byte, mod = 1 an 8-bit and
  mod = 2 a 32-bit signed displacement.
\<close>

definition modrm_base :: "nat \<Rightarrow> nat \<Rightarrow> vm \<Rightarrow> error + int \<times> vm" where
  "modrm_base md rm s =
     (if rm = 4 then
        andThen (fetch 1 False s) (\<lambda>(sib, s1).
        let scale = nat (sib div 64); idx = nat (sib div 8 mod 8); b = nat (sib mod 8);
            scaled = (if idx = 4 then 0 else uint (reg s1 idx) * 2 ^ scale) in
        if b = 5 \<and> md = 0
        then andThen (fetch 4 True s1) (\<lambda>(d, s2). Inr (d + scaled, s2))
        else Inr (uint (reg s1 b) + scaled, s1))
      else if rm = 5 \<and> md = 0 then fetch 4 False s
      else Inr (uint (reg s rm), s))"

definition modrm_disp :: "nat \<Rightarrow> vm \<Rightarrow> error + int \<times> vm" where
  "modrm_disp md s =
     (if md = 1 then fetch 1 True s else if md = 2 then fetch 4 True s else Inr (0, s))"

definition process_ModRM :: "nat \<Rightarrow> nat \<Rightarrow> vm \<Rightarrow> error + (rm_descr \<times> r_descr) \<times> vm" where
  "process_ModRM size1 size2 s =
     andThen (fetch 1 False s) (\<lambda>(m, s1).
     let md = nat (m div 64); rg = nat (m div 8 mod 8); rm = nat (m mod 8);
         R = (0, rg, size2) in
     if md = 3 then Inr (((False, int rm, size1), R), s1)
     else
       andThen (modrm_base md rm s1) (\<lambda>(base, s2).
       andThen (modrm_disp md s2) (\<lambda>(disp, s3).
       Inr (((True, base + disp, size1), R), s3))))"

text \<open>
  Modelled from the spec: \<open>stack_push\<close> and \<open>stack_pop\<close> (module CPU) are not among
  the sources. Push writes the value at ESP - width and then lowers ESP (register 4) by
  the width; pop reads at ESP and then raises ESP by the width.
\<close>

definition stack_push :: "byte list \<Rightarrow> vm \<Rightarrow> error + vm" where
  "stack_push data s =
     (let esp = uint (reg s 4) - int (length data) in
      andThen (mem_set s esp data) (\<lambda>s1. Inr (s1\<lparr>reg := (reg s1)(4 := word_of_int esp)\<rparr>)))"

definition stack_pop :: "nat \<Rightarrow> vm \<Rightarrow> error + byte list \<times> vm" where
  "stack_pop n s =
     (let esp = uint (reg s 4) in
      andThen (mem_get s esp n)
        (\<lambda>data. Inr (data, s\<lparr>reg := (reg s)(4 := word_of_int (esp + int n))\<rparr>)))"

section \<open>ADD and SUB (module internals)\<close>

definition MAXVALS :: "int option list" where
  "MAXVALS = [None, Some (push_bit 8 1 - 1), Some (push_bit 16 1 - 1), None,
              Some (push_bit 32 1 - 1)]"

text \<open>
  \<open>MAXVALS[off]\<close> used as a number: IndexError beyond the list, TypeError on the
  \<open>None\<close> entries (arithmetic on \<open>None\<close>).
\<close>

definition maxval :: "nat \<Rightarrow> error + int" where
  "maxval off =
     (if off < length MAXVALS
      then (case MAXVALS ! off of None \<Rightarrow> Inl TypeError | Some m \<Rightarrow> Inr m)
      else Inl IndexError)"

text \<open>
  The two lines every ADD/SUB primitive of the module runs on its operand values
  \<open>a\<close> and \<open>b\<close>:
  \<^verbatim>\<open>tmp = a + (b if not sub else MAXVALS[off] + 1 - b)\<close> and
  \<^verbatim>\<open>tmp &= MAXVALS[off]\<close>.
\<close>

definition addsub_value :: "nat \<Rightarrow> bool \<Rightarrow> int \<Rightarrow> int \<Rightarrow> error + int" where
  "addsub_value off sub a b =
     andThen (maxval off) (\<lambda>m. Inr ((a + (if \<not> sub then b else m + 1 - b)) AND m))"


text \<open>
  \<open>_VM__addsub_rm_imm(self, off, imm_sz, sub=False)\<close>. The immediate is read at
  \<open>imm_sz\<close> bytes and the instruction pointer then moves by \<open>off\<close>; on a
  sub-opcode mismatch the instruction pointer is put back to \<open>old_eip\<close>.
\<close>

definition VM_addsub_rm_imm :: "nat \<Rightarrow> nat \<Rightarrow> bool \<Rightarrow> vm \<Rightarrow> error + bool \<times> vm" where
  "VM_addsub_rm_imm off imm_sz sub s =
     (let old_eip = eip s in
      andThen (process_ModRM off off s) (\<lambda>((RM, R), s1).
      andThen (mem_get s1 (eip s1) imm_sz) (\<lambda>imm_bytes.
      let s2 = s1\<lparr>eip := eip s1 + int off\<rparr>;
          imm = to_int imm_bytes False in
      if \<not> sub \<and> fst (snd R) \<noteq> 0 then Inr (False, s2\<lparr>eip := old_eip\<rparr>)
      else if sub \<and> fst (snd R) \<noteq> 5 then Inr (False, s2\<lparr>eip := old_eip\<rparr>)
      else
        (case RM of (type, loc, _) \<Rightarrow>
           if \<not> type then
             andThen (reg_get s2 loc off) (\<lambda>a_bytes.
             andThen (addsub_value off sub (to_int a_bytes False) imm) (\<lambda>tmp.
             andThen (to_bytes tmp off) (\<lambda>data.
             andThen (reg_set s2 loc data) (\<lambda>s3. Inr (True, s3)))))
           else
             andThen (mem_get s2 loc off) (\<lambda>a_bytes.
             andThen (addsub_value off sub (to_int a_bytes False) imm) (\<lambda>tmp.
             andThen (to_bytes tmp off) (\<lambda>data.
             andThen (mem_set s2 loc data) (\<lambda>s3. Inr (True, s3)))))))))"



section \<open>MOV (module internals)\<close>

text \<open>\<open>_VM__mov_r_imm(self, off, op)\<close>\<close>

definition VM_mov_r_imm :: "nat \<Rightarrow> int \<Rightarrow> vm \<Rightarrow> error + vm" where
  "VM_mov_r_imm off op s =
     andThen (mem_get s (eip s) off) (\<lambda>imm.
     let s1 = s\<lparr>eip := eip s + int off\<rparr>;
         r = op AND 7 in
     reg_set s1 r imm)"

text \<open>
  \<open>_VM__mov_rm_imm(self, off)\<close>. On a sub-opcode other than 0 it returns False
  straight after \<open>process_ModRM\<close>, with the instruction pointer where
  \<open>process_ModRM\<close> left it.
\<close>

definition VM_mov_rm_imm :: "nat \<Rightarrow> vm \<Rightarrow> error + bool \<times> vm" where
  "VM_mov_rm_imm off s =
     andThen (process_ModRM off off s) (\<lambda>((RM, R), s1).
     if fst (snd R) \<noteq> 0 then Inr (False, s1)
     else
       (case RM of (type, loc, _) \<Rightarrow>
          andThen (mem_get s1 (eip s1) off) (\<lambda>imm.
          let s2 = s1\<lparr>eip := eip s1 + int off\<rparr> in
          if \<not> type then andThen (reg_set s2 loc imm) (\<lambda>s3. Inr (True, s3))
          else andThen (mem_set s2 loc imm) (\<lambda>s3. Inr (True, s3)))))"

text \<open>\<open>_VM__mov_rm_r(self, off)\<close>\<close>

definition VM_mov_rm_r :: "nat \<Rightarrow> vm \<Rightarrow> error + vm" where
  "VM_mov_rm_r off s =
     andThen (process_ModRM off off s) (\<lambda>((RM, R), s1).
     case RM of (type, loc, _) \<Rightarrow>
       andThen (reg_get s1 (int (fst (snd R))) (snd (snd R))) (\<lambda>data.
       if \<not> type then reg_set s1 loc data else mem_set s1 loc data))"

text \<open>\<open>_VM__mov_r_rm(self, off)\<close>\<close>

definition VM_mov_r_rm :: "nat \<Rightarrow> vm \<Rightarrow> error + vm" where
  "VM_mov_r_rm off s =
     andThen (process_ModRM off off s) (\<lambda>((RM, R), s1).
     case RM of (type, loc, sz) \<Rightarrow>
       if \<not> type
       then andThen (reg_get s1 loc sz) (\<lambda>data. reg_set s1 (int (fst (snd R))) data)
       else andThen (mem_get s1 loc sz) (\<lambda>data. reg_set s1 (int (fst (snd R))) data))"

text \<open>
  \<open>_VM__mov_eax_moffs(self, off)\<close> and \<open>_VM__mov_moffs_eax(self, off)\<close>: defined in
  module internals, and neither imported into class VM nor called by \<open>_mov\<close>.
\<close>

definition VM_mov_eax_moffs :: "nat \<Rightarrow> vm \<Rightarrow> error + vm" where
  "VM_mov_eax_moffs off s =
     andThen (mem_get s (eip s) off) (\<lambda>loc_bytes.
     let loc = to_int loc_bytes False;
         s1 = s\<lparr>eip := eip s + int off\<rparr> in
     andThen (mem_get s1 loc off) (\<lambda>data. reg_set s1 0 data))"

definition VM_mov_moffs_eax :: "nat \<Rightarrow> vm \<Rightarrow> error + vm" where
  "VM_mov_moffs_eax off s =
     andThen (mem_get s (eip s) off) (\<lambda>loc_bytes.
     let loc = to_int loc_bytes False;
         s1 = s\<lparr>eip := eip s + int off\<rparr> in
     andThen (reg_get s1 0 off) (\<lambda>data. mem_set s1 loc data))"

section \<open>The dispatchers of class VM\<close>

text \<open>\<open>self.sizes[self.current_mode]\<close> with \<open>self.sizes = (4, 2)\<close>.\<close>

definition sizes :: "nat list" where
  "sizes = [4, 2]"

definition operand_size :: "vm \<Rightarrow> error + nat" where
  "operand_size s =
     (if current_mode s < length sizes then Inr (sizes ! current_mode s) else Inl IndexError)"

text \<open>
  \<open>VM._mov(self, op)\<close>. The table \<open>valid_op\<close> lists 0xA0..0xA3 (\<open>al,moffs8\<close>,
  \<open>ax,moffs\<close>, \<open>moffs8,al\<close>, \<open>moffs,ax\<close>), the chain of tests has no branch for
  them: they reach the final \<open>else: return False\<close>.
\<close>

definition VM_mov :: "int \<Rightarrow> vm \<Rightarrow> error + bool \<times> vm" where
  "VM_mov op s =
     andThen (operand_size s) (\<lambda>sz.
     if 0xB0 \<le> op \<and> op < 0xB8 then andThen (VM_mov_r_imm 1 op s) (\<lambda>s'. Inr (True, s'))
     else if 0xB8 \<le> op \<and> op < 0xB8 + 8 then andThen (VM_mov_r_imm sz op s) (\<lambda>s'. Inr (True, s'))
     else if op = 0xC6 then VM_mov_rm_imm 1 s
     else if op = 0xC7 then VM_mov_rm_imm sz s
     else if op = 0x88 then andThen (VM_mov_rm_r 1 s) (\<lambda>s'. Inr (True, s'))
     else if op = 0x89 then andThen (VM_mov_rm_r sz s) (\<lambda>s'. Inr (True, s'))
     else if op = 0x8A then andThen (VM_mov_r_rm 1 s) (\<lambda>s'. Inr (True, s'))
     else if op = 0x8B then andThen (VM_mov_r_rm sz s) (\<lambda>s'. Inr (True, s'))
     else if op = 0x8C then Inl RuntimeError
     else if op = 0x8E then Inl RuntimeError
     else Inr (False, s))"

text \<open>\<open>VM._push(self, op)\<close>\<close>

definition VM_push :: "int \<Rightarrow> vm \<Rightarrow> error + bool \<times> vm" where
  "VM_push op s =
     andThen (operand_size s) (\<lambda>sz.
     if op = 0xFF then
       andThen (process_ModRM sz sz s) (\<lambda>((RM, R), s1).
       if fst (snd R) \<noteq> 6 then Inr (False, s1)
       else
         (case RM of (type, loc, _) \<Rightarrow>
            andThen (if \<not> type then reg_get s1 loc sz else mem_get s1 loc sz) (\<lambda>data.
            andThen (stack_push data s1) (\<lambda>s2. Inr (True, s2)))))
     else if 0x50 \<le> op \<and> op < 0x58 then
       andThen (reg_get s (op AND 7) sz) (\<lambda>data.
       andThen (stack_push data s) (\<lambda>s1. Inr (True, s1)))
     else if op = 0x6A then
       andThen (mem_get s (eip s) 1) (\<lambda>data.
       andThen (stack_push data (s\<lparr>eip := eip s + 1\<rparr>)) (\<lambda>s1. Inr (True, s1)))
     else if op = 0x68 then
       andThen (mem_get s (eip s) sz) (\<lambda>data.
       andThen (stack_push data (s\<lparr>eip := eip s + int sz\<rparr>)) (\<lambda>s1. Inr (True, s1)))
     else Inr (False, s))"

text \<open>
  \<open>VM._pop(self, op)\<close>. Both branches of the \<open>rm\<close> form store through
  \<open>self.reg.set(loc, data)\<close>, as the source has it.
\<close>

definition VM_pop :: "int \<Rightarrow> vm \<Rightarrow> error + bool \<times> vm" where
  "VM_pop op s =
     andThen (operand_size s) (\<lambda>sz.
     if op = 0x8F then
       andThen (process_ModRM sz sz s) (\<lambda>((RM, R), s1).
       if fst (snd R) \<noteq> 0 then Inr (False, s1)
       else
         (case RM of (type, loc, _) \<Rightarrow>
            andThen (stack_pop sz s1) (\<lambda>(data, s2).
            if \<not> type then andThen (reg_set s2 loc data) (\<lambda>s3. Inr (True, s3))
            else andThen (reg_set s2 loc data) (\<lambda>s3. Inr (True, s3)))))
     else if 0x58 \<le> op \<and> op < 0x58 + 8 then
       andThen (stack_pop sz s) (\<lambda>(data, s1).
       andThen (reg_set s1 (op AND 7) data) (\<lambda>s2. Inr (True, s2)))
     else Inr (False, s))"

section \<open>The syscall layer (module kernel)\<close>

text \<open>
  The host operating system, as far as the handlers call it. Each field is one host
  call; its result is whatever the host answers, an exception included. The handlers
  take the host as a parameter, so every theorem about them holds for every host.
  \<^item> \<open>h_fileno f\<close>: \<open>f.fileno()\<close>;
  \<^item> \<open>h_os_read fd n\<close>, \<open>h_os_write fd data\<close>, \<open>h_os_lseek fd pos whence\<close>: the
    functions of module \<open>os\<close>;
  \<^item> \<open>h_stream_read f n\<close>: the ASCII bytes of \<open>f.read(n)\<close>;
  \<^item> \<open>h_stream_write f data\<close>: \<open>f.write(data.decode('ascii'))\<close>, whose result may
    be \<open>None\<close>; \<open>h_stream_flush f\<close>: \<open>f.flush()\<close>; \<open>h_stream_close f\<close>:
    \<open>f.close()\<close>;
  \<^item> \<open>h_exit_message f code\<close>: the write of the exit message to \<open>f\<close>;
  \<^item> \<open>h_path_exists p\<close>: \<open>os.path.exists(p)\<close>; \<open>h_open p mode\<close>:
    \<open>open(p, mode)\<close>.
  A pathname is a Python \<open>str\<close>: the list of its code points.
\<close>

type_synonym pathname = "nat list"

record host =
  h_fileno :: "stream \<Rightarrow> error + int"
  h_os_read :: "int \<Rightarrow> int \<Rightarrow> error + byte list"
  h_os_write :: "int \<Rightarrow> byte list \<Rightarrow> error + int"
  h_os_lseek :: "int \<Rightarrow> int \<Rightarrow> int \<Rightarrow> error + int"
  h_stream_read :: "stream \<Rightarrow> int \<Rightarrow> error + byte list"
  h_stream_write :: "stream \<Rightarrow> byte list \<Rightarrow> error + int option"
  h_stream_flush :: "stream \<Rightarrow> error + unit"
  h_stream_close :: "stream \<Rightarrow> error + unit"
  h_exit_message :: "stream \<Rightarrow> int \<Rightarrow> error + unit"
  h_path_exists :: "pathname \<Rightarrow> bool"
  h_open :: "pathname \<Rightarrow> string \<Rightarrow> error + stream"

text \<open>
  \<open>io.UnsupportedOperation\<close> is a subclass of \<open>OSError\<close>: an \<open>except OSError\<close>
  clause catches both.
\<close>

definition is_OSError :: "error \<Rightarrow> bool" where
  "is_OSError e = (e = OSError \<or> e = UnsupportedOperation)"

text \<open>
  \<open>self.descriptors[fd]\<close>: IndexError beyond the table. An index is never
  negative here: it is an argument register read as an unsigned number, or a constant.
\<close>

definition descriptor :: "vm \<Rightarrow> int \<Rightarrow> error + stream option" where
  "descriptor s fd =
     (if 0 \<le> fd \<and> fd < int (length (descriptors s)) then Inr (descriptors s ! nat fd)
      else Inl IndexError)"

text \<open>
  A method call on \<open>self.descriptors[fd]\<close>: IndexError beyond the table,
  AttributeError on the free sentinel \<open>None\<close>, the host's answer otherwise.
\<close>

definition on_descriptor :: "vm \<Rightarrow> int \<Rightarrow> (stream \<Rightarrow> error + 'a) \<Rightarrow> error + 'a" where
  "on_descriptor s fd f =
     andThen (descriptor s fd) (\<lambda>d. case d of None \<Rightarrow> Inl AttributeError | Some st \<Rightarrow> f st)"

text \<open>
  Modelled from the spec: the register class is not among the sources. In module
  kernel \<open>self.reg.get(r, 4)\<close> is used as a number: the whole 32-bit cell, unsigned.
  \<open>self.reg.eax = value\<close> stores a number in the accumulator, a 32-bit cell, so -1
  is stored as \<open>0xFFFFFFFF\<close>; \<open>eax\<close> reads the cell.
\<close>

definition reg_get_u32 :: "vm \<Rightarrow> nat \<Rightarrow> int" where
  "reg_get_u32 s r = uint (reg s r)"

definition set_eax :: "vm \<Rightarrow> int \<Rightarrow> vm" where
  "set_eax s v = s\<lparr>reg := (reg s)(0 := word_of_int v)\<rparr>"

definition eax :: "vm \<Rightarrow> 32 word" where
  "eax s = reg s 0"

text \<open>
  \<open>__args(types)\<close>: the argument registers are EBX, ECX, EDX, ESI, EDI, in this
  order; the letters of \<open>types\<close> are only counted (by \<open>zip\<close>), and every argument
  is read by the same \<open>self.reg.get(reg, 4)\<close>. \<open>arg s i\<close> is element \<open>i\<close> of the
  list a handler unpacks.
\<close>

definition registers :: "nat list" where
  "registers = [3, 1, 2, 6, 7]"

definition arg :: "vm \<Rightarrow> nat \<Rightarrow> int" where
  "arg s i = reg_get_u32 s (registers ! i)"

text \<open>\<open>__return(value)\<close>: \<open>self.reg.eax = value\<close>.\<close>

definition sys_return :: "vm \<Rightarrow> int \<Rightarrow> vm" where
  "sys_return s v = set_eax s v"

text \<open>
  \<open>__read_string(address)\<close>: the bytes from \<open>address\<close> up to the first zero byte;
  a string that runs to the end of memory ends in \<open>MemoryFault\<close>.
\<close>

function read_string_loop :: "vm \<Rightarrow> int \<Rightarrow> byte list \<Rightarrow> error + byte list" where
  "read_string_loop s address ret =
     (case mem_get s address 1 of
        Inl e \<Rightarrow> Inl e
      | Inr bs \<Rightarrow>
          if to_int bs False \<noteq> 0
          then read_string_loop s (address + 1) (ret @ bs)
          else Inr ret)"
  by pat_completeness auto
termination
  by (relation "measure (\<lambda>(s, a, ret). nat (int (length (mem s)) - a))")
     (auto simp: mem_get_def in_bounds_def split: if_splits)

definition read_string :: "vm \<Rightarrow> int \<Rightarrow> error + byte list" where
  "read_string s address = read_string_loop s address []"

text \<open>
  \<open>bytearray.decode()\<close>: strict UTF-8. A byte that starts no well-formed sequence, a
  missing or wrong continuation byte, an overlong form, a surrogate or a code point
  above U+10FFFF raise UnicodeDecodeError.
\<close>

definition is_cont :: "byte \<Rightarrow> bool" where
  "is_cont b = (0x80 \<le> b \<and> b \<le> 0xBF)"

definition cont_bits :: "byte \<Rightarrow> nat" where
  "cont_bits b = unat b mod 64"

fun decode :: "byte list \<Rightarrow> error + pathname" where
  "decode [] = Inr []"
| "decode (b # bs) =
     (if b < 0x80 then andThen (decode bs) (\<lambda>r. Inr (unat b # r))
      else if 0xC2 \<le> b \<and> b \<le> 0xDF then
        (case bs of
           c1 # r1 \<Rightarrow>
             if is_cont c1
             then andThen (decode r1) (\<lambda>r. Inr ((unat b mod 32 * 64 + cont_bits c1) # r))
             else Inl UnicodeDecodeError
         | _ \<Rightarrow> Inl UnicodeDecodeError)
      else if 0xE0 \<le> b \<and> b \<le> 0xEF then
        (case bs of
           c1 # c2 # r2 \<Rightarrow>
             if (if b = 0xE0 then 0xA0 else 0x80) \<le> c1 \<and>
                c1 \<le> (if b = 0xED then 0x9F else 0xBF) \<and> is_cont c2
             then andThen (decode r2)
                    (\<lambda>r. Inr (((unat b mod 16 * 64 + cont_bits c1) * 64 + cont_bits c2) # r))
             else Inl UnicodeDecodeError
         | _ \<Rightarrow> Inl UnicodeDecodeError)
      else if 0xF0 \<le> b \<and> b \<le> 0xF4 then
        (case bs of
           c1 # c2 # c3 # r3 \<Rightarrow>
             if (if b = 0xF0 then 0x90 else 0x80) \<le> c1 \<and>
                c1 \<le> (if b = 0xF4 then 0x8F else 0xBF) \<and> is_cont c2 \<and> is_cont c3
             then andThen (decode r3)
                    (\<lambda>r. Inr ((((unat b mod 8 * 64 + cont_bits c1) * 64 + cont_bits c2) * 64
                                 + cont_bits c3) # r))
             else Inl UnicodeDecodeError
         | _ \<Rightarrow> Inl UnicodeDecodeError)
      else Inl UnicodeDecodeError)"

subsection \<open>exit, read, write\<close>

text \<open>\<open>sys_exit(self, code=0x01)\<close>\<close>

definition sys_exit :: "host \<Rightarrow> vm \<Rightarrow> error + vm" where
  "sys_exit h s =
     (let code = arg s 0;
          s1 = s\<lparr>program_break := code_segment_end s\<rparr> in
      andThen (on_descriptor s1 2 (\<lambda>f. h_exit_message h f code)) (\<lambda>_.
      Inr (s1\<lparr>RETCODE := Some code, running := False\<rparr>)))"

text \<open>
  \<open>sys_read(self, code=0x03)\<close>. The first \<open>except\<close> clause handles
  AttributeError and UnsupportedOperation by a second read through the stream, whose
  own exceptions nothing catches; the bare \<open>except\<close> turns every other exception of
  the \<open>try\<close> body into the return value -1.
\<close>

definition sys_read_store :: "vm \<Rightarrow> int \<Rightarrow> byte list \<Rightarrow> error + vm" where
  "sys_read_store s data_addr data =
     (let l = length data in
      andThen (mem_set s data_addr data) (\<lambda>s1. Inr (sys_return s1 (int l))))"

definition sys_read :: "host \<Rightarrow> vm \<Rightarrow> error + vm" where
  "sys_read h s =
     (let fd = arg s 0; data_addr = arg s 1; count = arg s 2 in
      case on_descriptor s fd (\<lambda>f. andThen (h_fileno h f) (\<lambda>n. h_os_read h n count)) of
        Inr data \<Rightarrow> sys_read_store s data_addr data
      | Inl e \<Rightarrow>
          if e = AttributeError \<or> e = UnsupportedOperation then
            andThen (on_descriptor s fd (\<lambda>f. h_stream_read h f count)) (\<lambda>text.
            sys_read_store s data_addr (text @ [0x0A]))
          else Inr (sys_return s (- 1)))"

text \<open>
  \<open>sys_write(self, code=0x04)\<close>. Only AttributeError and UnsupportedOperation are
  caught, by a second write through the stream; every other exception leaves the
  handler.
\<close>

definition sys_write :: "host \<Rightarrow> vm \<Rightarrow> error + vm" where
  "sys_write h s =
     (let fd = arg s 0; buf_addr = arg s 1; count = arg s 2 in
      andThen (mem_get s buf_addr (nat count)) (\<lambda>buf.
      andThen
        (case on_descriptor s fd
                (\<lambda>f. andThen (h_fileno h f) (\<lambda>fileno.
                     andThen (h_os_write h fileno buf) (\<lambda>n. Inr (Some n)))) of
           Inr ret \<Rightarrow> Inr ret
         | Inl e \<Rightarrow>
             if e = AttributeError \<or> e = UnsupportedOperation then
               on_descriptor s fd (\<lambda>f.
                 andThen (h_stream_write h f buf) (\<lambda>ret.
                 andThen (h_stream_flush h f) (\<lambda>_. Inr ret)))
             else Inl e)
        (\<lambda>ret.
           let size = (case ret of Some n \<Rightarrow> n | None \<Rightarrow> count) in
           Inr (sys_return s size))))"

subsection \<open>brk, mmap, munmap\<close>

text \<open>\<open>sys_brk(self, code=0x2d)\<close>\<close>

definition sys_brk :: "vm \<Rightarrow> vm" where
  "sys_brk s =
     (let brk = arg s 0;
          min_brk = code_segment_end s in
      if brk < min_brk then sys_return s (program_break s)
      else
        let newbrk = brk; oldbrk = program_break s in
        if oldbrk = newbrk then sys_return s (program_break s)
        else
          let s1 = s\<lparr>program_break := brk\<rparr> in
          sys_return s1 (program_break s1))"

text \<open>
  Modelled from the spec: \<open>self.mem.memset\<close> (class Memory) is not among the sources;
  it fills \<open>n\<close> bytes at the address with the value and returns the address: the
  spec has mmap return the old break, and the handler returns what \<open>memset\<close>
  returns.
\<close>

definition memset :: "vm \<Rightarrow> int \<Rightarrow> byte \<Rightarrow> int \<Rightarrow> error + int \<times> vm" where
  "memset s addr v n =
     andThen (mem_set s addr (replicate (nat n) v)) (\<lambda>s1. Inr (addr, s1))"

text \<open>
  \<open>sys_mmap_pgoff(self, code=0xc0)\<close>. \<open>MAP_FLAGS\<close> and \<open>MAP_PROT\<close> are
  \<open>enum.Flag\<close> classes: \<open>MAP_FLAGS(flags)\<close> raises ValueError for a value with a
  bit outside the members (0x01, 0x02, 0x10, 0x20), \<open>MAP_PROT(prot)\<close> for a bit
  outside 0x1, 0x2, 0x4.
\<close>

definition sys_mmap_pgoff :: "vm \<Rightarrow> error + vm" where
  "sys_mmap_pgoff s =
     (let addr = arg s 0; len = arg s 1; prot = arg s 2; flags = arg s 3; fd = arg s 4 in
      if flags AND 0x33 \<noteq> flags then Inl ValueError
      else if prot AND 0x7 \<noteq> prot then Inl ValueError
      else if flags AND 0x20 \<noteq> 0 then
        andThen (memset s (program_break s) 0 len) (\<lambda>(old_brk, s1).
        let s2 = s1\<lparr>program_break := program_break s1 + len\<rparr> in
        Inr (sys_return s2 old_brk))
      else Inr (sys_return s (- 1)))"

text \<open>\<open>sys_munmap(self, code=0x5b)\<close>\<close>

definition sys_munmap :: "vm \<Rightarrow> vm" where
  "sys_munmap s =
     (let addr = arg s 0; len = arg s 1 in
      let s1 = (if addr + len = program_break s then s\<lparr>program_break := addr\<rparr> else s) in
      sys_return s1 0)"

subsection \<open>open, close, llseek\<close>

text \<open>
  \<open>open_file(name, mode)\<close>, the local function of \<open>sys_open\<close>. The scan
  \<open>enumerate(self.descriptors)\<close> starts at slot 0.
\<close>

fun first_free :: "nat \<Rightarrow> stream option list \<Rightarrow> int" where
  "first_free descr [] = - 1"
| "first_free descr (file # rest) =
     (if file = None then int descr else first_free (Suc descr) rest)"

definition open_file :: "host \<Rightarrow> pathname \<Rightarrow> string \<Rightarrow> vm \<Rightarrow> error + int \<times> vm" where
  "open_file h name mode s =
     (let descriptor = first_free 0 (descriptors s) in
      if descriptor = - 1 then
        let descriptor = int (length (descriptors s)) in
        andThen (h_open h name mode) (\<lambda>f.
        Inr (descriptor, s\<lparr>descriptors := descriptors s @ [Some f]\<rparr>))
      else
        andThen (h_open h name mode) (\<lambda>f.
        Inr (descriptor, s\<lparr>descriptors := (descriptors s)[nat descriptor := Some f]\<rparr>)))"

text \<open>The members of \<open>O_MODE\<close> that \<open>sys_open\<close> tests.\<close>

definition O_RDONLY :: int where "O_RDONLY = 0"
definition O_WRONLY :: int where "O_WRONLY = 1"
definition O_RDWR :: int where "O_RDWR = 2"
definition O_TRUNC :: int where "O_TRUNC = 512"
definition O_LARGEFILE :: int where "O_LARGEFILE = 32768"

text \<open>\<open>sys_open(self, code=0x05)\<close>; \<open>''/etc''\<close> is the list 47, 101, 116, 99.\<close>

definition sys_open :: "host \<Rightarrow> vm \<Rightarrow> error + vm" where
  "sys_open h s =
     (let pathname_addr = arg s 0; flags = arg s 1; mode = arg s 2 in
      andThen (read_string s pathname_addr) (\<lambda>raw.
      andThen (decode raw) (\<lambda>pathname.
      if flags AND O_RDONLY \<noteq> 0 then
        if \<not> h_path_exists h pathname then Inr (sys_return s (- 1))
        else andThen (open_file h pathname ''r'' s) (\<lambda>(descr, s1). Inr (sys_return s1 descr))
      else if flags AND O_WRONLY \<noteq> 0 then
        andThen (if flags AND O_TRUNC \<noteq> 0 then open_file h pathname ''w'' s
                 else open_file h pathname ''x'' s)
          (\<lambda>(descr, s1). Inr (sys_return s1 descr))
      else if flags AND O_RDWR \<noteq> 0 then
        andThen (open_file h pathname ''r+'' s) (\<lambda>(descr, s1). Inr (sys_return s1 descr))
      else if flags AND O_LARGEFILE \<noteq> 0 then
        if take 4 pathname = [47, 101, 116, 99] then Inr (sys_return s (- 1))
        else andThen (open_file h pathname ''r'' s) (\<lambda>(descr, s1). Inr (sys_return s1 descr))
      else Inr (sys_return s (- 1)))))"

text \<open>\<open>sys_close(self, code=0x06)\<close>\<close>

definition sys_close :: "host \<Rightarrow> vm \<Rightarrow> error + vm" where
  "sys_close h s =
     (let fd = arg s 0 in
      if fd \<ge> int (length (descriptors s)) then Inr (sys_return s (- 1))
      else
        (case descriptors s ! nat fd of
           None \<Rightarrow> Inr (sys_return s (- 1))
         | Some f \<Rightarrow>
             andThen (h_stream_close h f) (\<lambda>_.
             Inr (sys_return (s\<lparr>descriptors := (descriptors s)[nat fd := None]\<rparr>) 0))))"

text \<open>
  Modelled from the spec: the three-argument \<open>self.mem.set(addr, n, value)\<close> of
  module kernel (class Memory) is not among the sources; it stores the number's low
  \<open>n\<close> bytes, little-endian.
\<close>

definition mem_set_int :: "vm \<Rightarrow> int \<Rightarrow> nat \<Rightarrow> int \<Rightarrow> error + vm" where
  "mem_set_int s addr n v = mem_set s addr (le_bytes n v)"

text \<open>
  \<open>sys_llseek(self, code=0x8c)\<close>. The host seek gets \<open>offset & 0xFFFFFFFF\<close>; only
  OSError is caught, around the whole argument evaluation and the call.
\<close>

definition sys_llseek :: "host \<Rightarrow> vm \<Rightarrow> error + vm" where
  "sys_llseek h s =
     (let fd = arg s 0; offset_high = arg s 1; offset_low = arg s 2;
          result_addr = arg s 3; whence = arg s 4;
          offset = push_bit 32 offset_high OR offset_low in
      case on_descriptor s fd (\<lambda>f. andThen (h_fileno h f)
             (\<lambda>n. h_os_lseek h n (offset AND 0xFFFFFFFF) whence)) of
        Inl e \<Rightarrow> if is_OSError e then Inr (sys_return s (- 1)) else Inl e
      | Inr ret \<Rightarrow>
          andThen (mem_set_int s result_addr 4 ret) (\<lambda>s1. Inr (sys_return s1 0)))"

section \<open>Construction, example states and an example host\<close>

text \<open>
  Modelled from the spec: the base-class constructor (module CPU) and the loader are
  not among the sources. The spec has construction create the memory of \<open>memsize\<close>
  bytes and the zeroed register file; the loader sets the instruction pointer and the
  two watermarks, which are 0 here. \<open>VM.__init__(self, memsize)\<close> itself selects
  32-bit mode, puts the three standard streams in the descriptor table and sets
  \<open>running\<close>.
\<close>

definition VM_init :: "nat \<Rightarrow> vm" where
  "VM_init memsize =
     \<lparr>mem = replicate memsize 0, program_break = 0, code_segment_end = 0,
      reg = (\<lambda>_. 0), eip = 0, current_mode = 0,
      descriptors = [Some Stdin, Some Stdout, Some Stderr], running = True, RETCODE = None\<rparr>"

text \<open>
  A host on which every call succeeds, except a seek at or beyond \<open>2 ^ 32\<close>:
  reads return nothing, writes take every byte, a seek below \<open>2 ^ 32\<close> ends at
  the position asked for, every path exists and \<open>open\<close> returns a new stream.
\<close>

definition ex_host :: host where
  "ex_host =
     \<lparr>h_fileno = (\<lambda>f. Inr (case f of Stdin \<Rightarrow> 0 | Stdout \<Rightarrow> 1 | Stderr \<Rightarrow> 2
                                      | HostFile n \<Rightarrow> int n)),
      h_os_read = (\<lambda>fd n. Inr []),
      h_os_write = (\<lambda>fd data. Inr (int (length data))),
      h_os_lseek = (\<lambda>fd pos whence. if pos < 2 ^ 32 then Inr pos else Inl OSError),
      h_stream_read = (\<lambda>f n. Inr []),
      h_stream_write = (\<lambda>f data. Inr (Some (int (length data)))),
      h_stream_flush = (\<lambda>f. Inr ()),
      h_stream_close = (\<lambda>f. Inr ()),
      h_exit_message = (\<lambda>f code. Inr ()),
      h_path_exists = (\<lambda>p. True),
      h_open = (\<lambda>p mode. Inr (HostFile 7))\<rparr>"

text \<open>
  Instruction bytes. \<open>0xC8\<close> is the ModRM byte with mod 3, sub-opcode (reg) 1 and
  rm 0; \<open>0xC0\<close> has mod 3, sub-opcode 0, rm 0; \<open>0xE8\<close> has mod 3, sub-opcode 5,
  rm 0. \<open>0x0B\<close>, \<open>0x03\<close> and \<open>0x2B\<close> have mod 0 and rm 3 (the address in
  EBX), with reg 1, 0 and 5.
\<close>

definition ex_modrm_state :: vm where
  "ex_modrm_state = (VM_init 4)\<lparr>mem := [0xC8, 0, 0, 0]\<rparr>"

definition ex_imm8_state :: vm where
  "ex_imm8_state = (VM_init 8)\<lparr>mem := [0xC0, 5, 0, 0, 0, 0, 0, 0]\<rparr>"







text \<open>
  States of the syscall layer: the arguments sit in EBX (3), ECX (1), EDX (2),
  ESI (6), EDI (7).
\<close>

definition ex_bad_fd_state :: vm where
  "ex_bad_fd_state = (VM_init 4)\<lparr>reg := (\<lambda>_. 0)(3 := 7)\<rparr>"

definition ex_freed_fd_state :: vm where
  "ex_freed_fd_state =
     (VM_init 4)\<lparr>reg := (\<lambda>_. 0)(3 := 3),
                  descriptors := [Some Stdin, Some Stdout, Some Stderr, None]\<rparr>"

definition ex_munmap_state :: vm where
  "ex_munmap_state =
     (VM_init 200)\<lparr>program_break := 100, code_segment_end := 100,
                    reg := (\<lambda>_. 0)(3 := 50, 1 := 50)\<rparr>"

definition ex_mmap_state :: vm where
  "ex_mmap_state =
     (VM_init 200)\<lparr>program_break := 100, code_segment_end := 100,
                    reg := (\<lambda>_. 0)(1 := 16, 2 := 3, 6 := 0x22)\<rparr>"

definition ex_brk_query_state :: vm where
  "ex_brk_query_state = (VM_init 16)\<lparr>program_break := 5\<rparr>"

definition ex_brk_low_state :: vm where
  "ex_brk_low_state =
     (VM_init 200)\<lparr>program_break := 50, code_segment_end := 100,
                    reg := (\<lambda>_. 0)(3 := 70)\<rparr>"

definition ex_brk_state :: vm where
  "ex_brk_state =
     (VM_init 200)\<lparr>program_break := 120, code_segment_end := 100\<rparr>"

definition ex_brk_raise_state :: vm where
  "ex_brk_raise_state =
     (VM_init 200)\<lparr>program_break := 120, code_segment_end := 100,
                    reg := (\<lambda>_. 0)(3 := 150)\<rparr>"

definition ex_llseek_state :: vm where
  "ex_llseek_state =
     (VM_init 8)\<lparr>mem := [9, 9, 9, 9, 9, 9, 9, 9], reg := (\<lambda>_. 0)(1 := 1)\<rparr>"

definition ex_llseek_low_state :: vm where
  "ex_llseek_low_state =
     (VM_init 8)\<lparr>mem := [9, 9, 9, 9, 9, 9, 9, 9], reg := (\<lambda>_. 0)(1 := 1, 2 := 5)\<rparr>"

text \<open>
  Pathnames at address 0: the string \<open>a\<close>, and the single byte \<open>0xFF\<close>, which
  is not UTF-8. The flags 513 are \<open>O_WRONLY | O_TRUNC\<close>.
\<close>

definition ex_path_state :: vm where
  "ex_path_state = (VM_init 4)\<lparr>mem := [0x61, 0, 0, 0]\<rparr>"

definition ex_bad_path_state :: vm where
  "ex_bad_path_state = (VM_init 4)\<lparr>mem := [0xFF, 0, 0, 0]\<rparr>"

definition ex_close_state :: vm where
  "ex_close_state = VM_init 4"

definition ex_open_state :: vm where
  "ex_open_state =
     (VM_init 4)\<lparr>mem := [0x61, 0, 0, 0], reg := (\<lambda>_. 0)(1 := 513),
                  descriptors := [Some Stdin, Some Stdout, Some Stderr, Some (HostFile 5),
                                  None, Some (HostFile 6), None]\<rparr>"

definition ex_reopen_state :: vm where
  "ex_reopen_state =
     (VM_init 4)\<lparr>mem := [0x61, 0, 0, 0], reg := (\<lambda>_. 0)(1 := 513),
                  descriptors := [None, Some Stdout, Some Stderr]\<rparr>"

text \<open>
  The allocation policy of the spec, as a relation between the table before and
  after: the stream \<open>f\<close> is placed in slot \<open>d\<close>, the lowest-numbered free slot,
  and the table grows, by this one slot, only when no slot is free.
\<close>

definition placed_lowest_free :: "stream option list \<Rightarrow> nat \<Rightarrow> stream \<Rightarrow> stream option list \<Rightarrow> bool" where
  "placed_lowest_free tab d f tab' =
     (d \<le> length tab \<and> (\<forall>j<d. tab ! j \<noteq> None) \<and>
      (if d < length tab then tab ! d = None \<and> tab' = tab[d := Some f]
       else tab' = tab @ [Some f]))"

section \<open>Bytes, memory and registers\<close>

lemma length_le_bytes [simp]: "length (le_bytes n v) = n"
  by (induction n arbitrary: v) auto





lemma le_bytes_widths:
  "le_bytes (Suc 0) v = [word_of_int v]"
  "le_bytes 2 v = [word_of_int v, word_of_int (v div 256)]"
  "le_bytes 4 v = [word_of_int v, word_of_int (v div 256), word_of_int (v div 256 div 256),
                   word_of_int (v div 256 div 256 div 256)]"
  by (simp_all add: eval_nat_numeral)

lemma to_int_unsigned [simp]: "to_int bs False = from_bytes_le bs"
  by (simp add: to_int_def)





lemma mem_set_get:
  assumes "mem_set s a d = Inr s'"
  shows "mem_get s' a (length d) = Inr d"
proof -
  from assms have b: "in_bounds s a (int (length d))"
    and s': "s' = s\<lparr>mem := take (nat a) (mem s) @ d @ drop (nat a + length d) (mem s)\<rparr>"
    by (auto simp: mem_set_def split: if_splits)
  from b have a: "0 \<le> a" "nat a + length d \<le> length (mem s)"
    by (auto simp: in_bounds_def)
  have len: "length (mem s') = length (mem s)" using a by (simp add: s')
  have "take (length d) (drop (nat a) (mem s')) = d" using a by (simp add: s')
  then show ?thesis using b len by (simp add: mem_get_def in_bounds_def)
qed

lemma reg_set_frame:
  "reg_set s r d = Inr s' \<Longrightarrow> eip s' = eip s \<and> mem s' = mem s"
  by (auto simp: reg_set_def Let_def split: if_splits)

lemma mem_set_frame:
  "mem_set s a d = Inr s' \<Longrightarrow> eip s' = eip s \<and> reg s' = reg s"
  by (auto simp: mem_set_def split: if_splits)

lemma reg_get_frame: "reg s' = reg s \<Longrightarrow> reg_get s' r n = reg_get s r n"
  by (simp add: reg_get_def)

section \<open>The operand resolver\<close>

lemma andThen_Inr: "(andThen m f = Inr y) = (\<exists>x. m = Inr x \<and> f x = Inr y)"
  by (cases m) (simp_all add: andThen_def)

lemma fetch_eip: "fetch n sg s = Inr (v, s') \<Longrightarrow> eip s' = eip s + int n"
  by (auto simp: fetch_def andThen_Inr)

lemma modrm_base_eip:
  assumes "modrm_base md rm s = Inr (v, s')"
  shows "eip s \<le> eip s'"
proof (cases "rm = 4")
  case True
  with assms obtain sib s1 where f: "fetch 1 False s = Inr (sib, s1)"
    and r: "(if nat (sib mod 8) = 5 \<and> md = 0
             then andThen (fetch 4 True s1)
                    (\<lambda>(d, s2). Inr (d + (if nat (sib div 8 mod 8) = 4 then 0
                        else uint (reg s1 (nat (sib div 8 mod 8))) * 2 ^ nat (sib div 64)), s2))
             else Inr (uint (reg s1 (nat (sib mod 8))) +
                        (if nat (sib div 8 mod 8) = 4 then 0
                         else uint (reg s1 (nat (sib div 8 mod 8))) * 2 ^ nat (sib div 64)), s1))
            = Inr (v, s')"
    by (auto simp: modrm_base_def andThen_Inr Let_def)
  from f have 1: "eip s1 = eip s + 1" by (auto dest: fetch_eip)
  show ?thesis
  proof (cases "nat (sib mod 8) = 5 \<and> md = 0")
    case True
    with r obtain d s2 where "fetch 4 True s1 = Inr (d, s2)" and "s' = s2"
      by (auto simp: andThen_Inr)
    then have "eip s' = eip s1 + 4" by (auto dest: fetch_eip)
    with 1 show ?thesis by simp
  next
    case False
    with r have "s' = s1" by auto
    with 1 show ?thesis by simp
  qed
next
  case False
  show ?thesis
  proof (cases "rm = 5 \<and> md = 0")
    case True
    with False assms have "fetch 4 False s = Inr (v, s')" by (simp add: modrm_base_def)
    then show ?thesis by (auto dest: fetch_eip)
  next
    case no: False
    with False assms have "s' = s" by (auto simp: modrm_base_def)
    then show ?thesis by simp
  qed
qed

lemma modrm_disp_eip: "modrm_disp md s = Inr (v, s') \<Longrightarrow> eip s \<le> eip s'"
  by (auto simp: modrm_disp_def split: if_splits dest!: fetch_eip)

lemma process_ModRM_advances:
  assumes "process_ModRM a b s = Inr (d, s')"
  shows "eip s < eip s'"
proof -
  from assms obtain m s1 where f: "fetch 1 False s = Inr (m, s1)"
    and r: "(if nat (m div 64) = 3
             then Inr (((False, int (nat (m mod 8)), a), (0, nat (m div 8 mod 8), b)), s1)
             else andThen (modrm_base (nat (m div 64)) (nat (m mod 8)) s1) (\<lambda>(base, s2).
                  andThen (modrm_disp (nat (m div 64)) s2) (\<lambda>(disp, s3).
                  Inr (((True, base + disp, a), (0, nat (m div 8 mod 8), b)), s3))))
            = Inr (d, s')"
    by (auto simp: process_ModRM_def andThen_Inr Let_def)
  from f have 1: "eip s1 = eip s + 1" by (auto dest: fetch_eip)
  have "eip s1 \<le> eip s'"
  proof (cases "nat (m div 64) = 3")
    case True
    with r show ?thesis by simp
  next
    case False
    with r obtain base s2 disp s3 where "modrm_base (nat (m div 64)) (nat (m mod 8)) s1 = Inr (base, s2)"
      and "modrm_disp (nat (m div 64)) s2 = Inr (disp, s3)" and "s' = s3"
      by (auto simp: andThen_Inr)
    then show ?thesis using modrm_base_eip modrm_disp_eip by fastforce
  qed
  with 1 show ?thesis by simp
qed

lemma process_ModRM_register_direct:
  assumes "mem_get s (eip s) 1 = Inr [m]" and "192 \<le> uint m"
  shows "process_ModRM size1 size2 s =
           Inr (((False, uint m mod 8, size1), (0, nat (uint m div 8 mod 8), size2)),
                s\<lparr>eip := eip s + 1\<rparr>)"
proof -
  have "uint m < 256" using uint_bounded [of m] by simp
  with assms(2) have "uint m div 64 = 3" by simp
  then show ?thesis
    using assms(1) by (simp add: process_ModRM_def fetch_def andThen_def Let_def)
qed

section \<open>ADD and SUB are modular arithmetic\<close>

lemma and_maxval: "(x::int) AND (2 ^ n - 1) = x mod 2 ^ n"
  by (metis mask_eq_exp_minus_1 take_bit_eq_mask take_bit_eq_mod)

lemma maxval_width: "w \<in> {1, 2, 4} \<Longrightarrow> maxval w = Inr (2 ^ (8 * w) - 1)"
  by (auto simp: maxval_def MAXVALS_def)

lemma addsub_value_add:
  "w \<in> {1, 2, 4} \<Longrightarrow> addsub_value w False a b = Inr ((a + b) mod 2 ^ (8 * w))"
  by (simp only: addsub_value_def maxval_width andThen_def sum.case and_maxval not_False_eq_True if_True)











subsection \<open>The immediate of the rm,imm handler\<close>

lemma ex_imm8_modrm: "process_ModRM a b ex_imm8_state = Inr (((False, 0, a), (0, 0, b)), ex_imm8_state\<lparr>eip := 1\<rparr>)"
  using process_ModRM_register_direct [of ex_imm8_state "0xC0" a b]
  by (simp add: ex_imm8_state_def VM_init_def mem_get_def in_bounds_def)

text \<open>
  Whenever the rm,imm handler accepts, the instruction pointer ends \<open>off\<close> bytes
  past the resolver's bytes, whatever \<open>imm_sz\<close> is; when it refuses, the instruction
  pointer is back at its entry value.
\<close>

lemma VM_addsub_rm_imm_eip:
  assumes m: "process_ModRM off off s = Inr (d, s1)"
    and r: "VM_addsub_rm_imm off imm_sz sub s = Inr (True, s')"
  shows "eip s' = eip s1 + int off"
  using r unfolding VM_addsub_rm_imm_def m
  by (auto simp: andThen_def Let_def split: sum.splits if_splits prod.splits
      dest!: reg_set_frame mem_set_frame)

lemma VM_addsub_rm_imm_rolls_back:
  assumes "VM_addsub_rm_imm off imm_sz sub s = Inr (False, s')"
  shows "eip s' = eip s"
  using assms
  by (auto simp: VM_addsub_rm_imm_def andThen_def Let_def split: sum.splits if_splits prod.splits)

text \<open>
  Claim C9. With operand width 4 and immediate width 1 (the \<open>rm,imm8\<close> form) on
  the instruction bytes \<open>0xC0 0x05\<close>, the accepting handler adds the one-byte
  immediate 5 to register 0 and leaves the instruction pointer at 5: one ModRM byte
  plus the operand width 4, not plus the immediate width 1 (which would be 2).
\<close>

theorem addsub_rm_imm_advances_by_operand_width:
  "VM_addsub_rm_imm 4 1 False ex_imm8_state =
     Inr (True, ex_imm8_state\<lparr>reg := (\<lambda>_. 0)(0 := 5), eip := 5\<rparr>)"
proof -
  have v: "addsub_value 4 False 0 5 = Inr 5"
    using addsub_value_add [of 4 0 5] by simp
  show ?thesis
    unfolding VM_addsub_rm_imm_def ex_imm8_modrm
    by (simp add: andThen_def Let_def v ex_imm8_state_def VM_init_def mem_get_def in_bounds_def
        reg_get_def reg_set_def reg_cell_def reg_shift_def splice_def to_bytes_def
        le_bytes_widths)
qed

section \<open>The dispatchers\<close>

lemma ex_modrm: "process_ModRM a b ex_modrm_state = Inr (((False, 0, a), (0, 1, b)), ex_modrm_state\<lparr>eip := 1\<rparr>)"
  using process_ModRM_register_direct [of ex_modrm_state "0xC8" a b]
  by (simp add: ex_modrm_state_def VM_init_def mem_get_def in_bounds_def)

text \<open>
  \<open>_VM__mov_rm_imm\<close> on a sub-opcode other than 0 returns False with the
  instruction pointer past everything the resolver consumed.
\<close>

lemma VM_mov_rm_imm_no_rollback:
  assumes "process_ModRM off off s = Inr ((RM, c, r, z), s1)" and "r \<noteq> 0"
  shows "VM_mov_rm_imm off s = Inr (False, s1) \<and> eip s < eip s1"
  using assms process_ModRM_advances [OF assms(1)]
  by (simp add: VM_mov_rm_imm_def andThen_def)

text \<open>
  The rm,imm handler of ADD and SUB is the one that follows the rollback protocol:
  whenever it returns False, the instruction pointer is the one it was entered with.
\<close>

theorem addsub_rm_imm_restores_eip:
  "VM_addsub_rm_imm off imm_sz sub s = Inr (False, s') \<longrightarrow> eip s' = eip s"
  using VM_addsub_rm_imm_rolls_back by blast

text \<open>
  On the ModRM byte \<open>0xC8\<close> (sub-opcode 1, neither ADD nor SUB) the handler
  returns False and the state it was entered with.
\<close>

theorem addsub_rm_imm_restores_eip_witness:
  "VM_addsub_rm_imm 1 1 False ex_modrm_state = Inr (False, ex_modrm_state) \<and>
   eip ex_modrm_state = 0"
proof -
  have e: "eip ex_modrm_state = 0" by (simp add: ex_modrm_state_def VM_init_def)
  have r: "VM_addsub_rm_imm 1 1 False ex_modrm_state = Inr (False, ex_modrm_state)"
    unfolding VM_addsub_rm_imm_def ex_modrm
    by (simp add: andThen_def Let_def mem_get_def in_bounds_def ex_modrm_state_def VM_init_def)
  from addsub_rm_imm_restores_eip [of 1 1 False ex_modrm_state ex_modrm_state] r e
  show ?thesis by simp
qed

text \<open>
  Claim C1. The rollback the claim asks of every dispatcher is missing in three of them.
  The state \<open>ex_modrm_state\<close> has the ModRM byte \<open>0xC8\<close> (mod 3, sub-opcode 1,
  rm 0) at instruction pointer 0. \<open>_mov\<close> on opcode \<open>0xC6\<close>, \<open>_push\<close> on
  \<open>0xFF\<close> and \<open>_pop\<close> on \<open>0x8F\<close> each resolve the ModRM byte, find a sub-opcode
  that is not theirs and return False with the instruction pointer at 1, not at 0.
\<close>

theorem rollback_missing:
  "eip ex_modrm_state = 0 \<and>
   VM_mov 0xC6 ex_modrm_state = Inr (False, ex_modrm_state\<lparr>eip := 1\<rparr>) \<and>
   VM_push 0xFF ex_modrm_state = Inr (False, ex_modrm_state\<lparr>eip := 1\<rparr>) \<and>
   VM_pop 0x8F ex_modrm_state = Inr (False, ex_modrm_state\<lparr>eip := 1\<rparr>)"
proof -
  have sz: "operand_size ex_modrm_state = Inr 4"
    by (simp add: operand_size_def sizes_def ex_modrm_state_def VM_init_def)
  have e: "eip ex_modrm_state = 0" by (simp add: ex_modrm_state_def VM_init_def)
  have m: "VM_mov 0xC6 ex_modrm_state = Inr (False, ex_modrm_state\<lparr>eip := 1\<rparr>)"
    by (simp add: VM_mov_def sz andThen_def VM_mov_rm_imm_def ex_modrm)
  have p: "VM_push 0xFF ex_modrm_state = Inr (False, ex_modrm_state\<lparr>eip := 1\<rparr>)"
    by (simp add: VM_push_def sz andThen_def ex_modrm)
  have q: "VM_pop 0x8F ex_modrm_state = Inr (False, ex_modrm_state\<lparr>eip := 1\<rparr>)"
    by (simp add: VM_pop_def sz andThen_def ex_modrm)
  show ?thesis using e m p q by simp
qed

text \<open>
  Claim C8. In either operand-size mode and on every state, \<open>_mov\<close> returns False
  on each of the opcodes \<open>0xA0\<close>, \<open>0xA1\<close>, \<open>0xA2\<close>, \<open>0xA3\<close> and leaves the
  state as it was: no value moves between the accumulator and memory.
\<close>

theorem mov_moffs_not_handled:
  assumes "current_mode s < length sizes"
  shows "VM_mov 0xA0 s = Inr (False, s) \<and> VM_mov 0xA1 s = Inr (False, s) \<and>
         VM_mov 0xA2 s = Inr (False, s) \<and> VM_mov 0xA3 s = Inr (False, s)"
  using assms by (simp add: VM_mov_def operand_size_def andThen_def)

theorem mov_moffs_not_handled_witness:
  "VM_mov 0xA0 (VM_init 4) = Inr (False, VM_init 4) \<and> VM_mov 0xA1 (VM_init 4) = Inr (False, VM_init 4) \<and>
   VM_mov 0xA2 (VM_init 4) = Inr (False, VM_init 4) \<and> VM_mov 0xA3 (VM_init 4) = Inr (False, VM_init 4)"
  using mov_moffs_not_handled [of "VM_init 4"] by (simp add: VM_init_def sizes_def)

section \<open>The syscall handlers\<close>

lemma arg_simps:
  "arg s 0 = uint (reg s 3)" "arg s (Suc 0) = uint (reg s 1)" "arg s 2 = uint (reg s 2)"
  "arg s 3 = uint (reg s 6)" "arg s 4 = uint (reg s 7)"
  by (simp_all add: arg_def reg_get_u32_def registers_def)

lemma arg_range: "0 \<le> arg s i" "arg s i < 2 ^ 32"
  using uint_bounded [of "reg s (registers ! i)"] by (simp_all add: arg_def reg_get_u32_def)

lemma sys_return_fields [simp]:
  "eax (sys_return s v) = word_of_int v" "descriptors (sys_return s v) = descriptors s"
  "program_break (sys_return s v) = program_break s" "mem (sys_return s v) = mem s"
  "code_segment_end (sys_return s v) = code_segment_end s"
  by (simp_all add: sys_return_def set_eax_def eax_def)

lemma mem_get_sys_return [simp]: "mem_get (sys_return s v) a n = mem_get s a n"
  by (simp add: mem_get_def in_bounds_def)

subsection \<open>Exceptions that leave a handler\<close>

text \<open>
  Claim C3. For every host: \<open>sys_write\<close> and \<open>sys_llseek\<close> on a descriptor number
  beyond the table (7, with the three standard streams open) end in IndexError, and
  \<open>sys_write\<close> and \<open>sys_read\<close> on a freed slot end in AttributeError; no -1 is
  written to the accumulator, the exception leaves the handler.
\<close>

theorem syscall_exceptions_escape:
  "sys_write h ex_bad_fd_state = Inl IndexError \<and>
   sys_llseek h ex_bad_fd_state = Inl IndexError \<and>
   sys_write h ex_freed_fd_state = Inl AttributeError \<and>
   sys_read h ex_freed_fd_state = Inl AttributeError"
  by (simp add: sys_write_def sys_llseek_def sys_read_def Let_def arg_simps andThen_def
      on_descriptor_def descriptor_def ex_bad_fd_state_def ex_freed_fd_state_def VM_init_def
      mem_get_def in_bounds_def is_OSError_def)

subsection \<open>The program break\<close>

text \<open>
  \<open>sys_brk\<close>, \<open>sys_mmap_pgoff\<close> and \<open>sys_exit\<close> keep the break at or above
  \<open>code_segment_end\<close>.
\<close>

lemma break_kept_above_code_segment_end:
  assumes "code_segment_end s \<le> program_break s"
  shows "code_segment_end (sys_brk s) \<le> program_break (sys_brk s)"
    and "sys_mmap_pgoff s = Inr t \<Longrightarrow> code_segment_end t \<le> program_break t"
    and "sys_exit h s = Inr u \<Longrightarrow> code_segment_end u \<le> program_break u"
proof -
  show "code_segment_end (sys_brk s) \<le> program_break (sys_brk s)"
    using assms by (simp add: sys_brk_def Let_def sys_return_def set_eax_def)
  have len: "0 \<le> arg s 1" by (rule arg_range)
  show "code_segment_end t \<le> program_break t" if "sys_mmap_pgoff s = Inr t"
    using that assms len
    by (auto simp: sys_mmap_pgoff_def memset_def mem_set_def Let_def andThen_def sys_return_def set_eax_def
        split: if_splits sum.splits)
  show "code_segment_end u \<le> program_break u" if "sys_exit h s = Inr u"
    using that
    by (auto simp: sys_exit_def Let_def andThen_def split: sum.splits)
qed

theorem break_kept_by_brk_mmap_exit:
  "code_segment_end s \<le> program_break s \<longrightarrow>
     code_segment_end (sys_brk s) \<le> program_break (sys_brk s) \<and>
     (sys_mmap_pgoff s = Inr t \<longrightarrow> code_segment_end t \<le> program_break t) \<and>
     (sys_exit h s = Inr u \<longrightarrow> code_segment_end u \<le> program_break u)"
  using break_kept_above_code_segment_end by blast

text \<open>
  An anonymous mapping of 16 bytes raises the break from 100 to 116 and returns the
  old break 100; exit puts the break back to \<open>code_segment_end\<close>.
\<close>

theorem break_kept_by_brk_mmap_exit_witness:
  "\<exists>t u. sys_mmap_pgoff ex_mmap_state = Inr t \<and> sys_exit ex_host ex_mmap_state = Inr u \<and>
     program_break t = 116 \<and> eax t = 100 \<and> program_break u = 100 \<and>
     code_segment_end (sys_brk ex_mmap_state) \<le> program_break (sys_brk ex_mmap_state) \<and>
     code_segment_end t \<le> program_break t \<and> code_segment_end u \<le> program_break u"
proof -
  have inv: "code_segment_end ex_mmap_state \<le> program_break ex_mmap_state"
    by (simp add: ex_mmap_state_def VM_init_def)
  have m: "sys_mmap_pgoff ex_mmap_state =
             Inr (sys_return (ex_mmap_state\<lparr>mem := replicate 200 0, program_break := 116\<rparr>) 100)"
    by (simp add: sys_mmap_pgoff_def Let_def arg_simps memset_def mem_set_def in_bounds_def
        andThen_def ex_mmap_state_def VM_init_def replicate_add [symmetric])
  have x: "sys_exit ex_host ex_mmap_state =
             Inr (ex_mmap_state\<lparr>running := False, RETCODE := Some 0\<rparr>)"
    by (simp add: sys_exit_def Let_def arg_simps on_descriptor_def descriptor_def andThen_def
        ex_host_def ex_mmap_state_def VM_init_def)
  define t where "t = sys_return (ex_mmap_state\<lparr>mem := replicate 200 0, program_break := 116\<rparr>) 100"
  define u where "u = ex_mmap_state\<lparr>running := False, RETCODE := Some 0\<rparr>"
  have m': "sys_mmap_pgoff ex_mmap_state = Inr t" and x': "sys_exit ex_host ex_mmap_state = Inr u"
    using m x by (simp_all only: t_def u_def)
  have v: "program_break t = 116" "eax t = 100" "program_break u = 100"
    by (simp_all add: t_def u_def ex_mmap_state_def VM_init_def)
  have k: "code_segment_end (sys_brk ex_mmap_state) \<le> program_break (sys_brk ex_mmap_state) \<and>
           code_segment_end t \<le> program_break t \<and> code_segment_end u \<le> program_break u"
    using break_kept_by_brk_mmap_exit [of ex_mmap_state t ex_host u] inv m' x' by blast
  show ?thesis using m' x' v k by blast
qed

text \<open>
  Claim C6. From a state with \<open>program_break = code_segment_end = 100\<close>, the call
  \<open>munmap(addr = 50, length = 50)\<close> sets the program break to 50, below
  \<open>code_segment_end\<close>, which stays 100.
\<close>

theorem munmap_lowers_break_below_code_segment_end:
  "code_segment_end ex_munmap_state \<le> program_break ex_munmap_state \<and>
   program_break (sys_munmap ex_munmap_state) = 50 \<and>
   code_segment_end (sys_munmap ex_munmap_state) = 100"
  by (simp add: sys_munmap_def Let_def arg_simps sys_return_def set_eax_def ex_munmap_state_def VM_init_def)

lemma sys_brk_below:
  "arg s 0 < code_segment_end s \<Longrightarrow> sys_brk s = sys_return s (program_break s)"
  by (simp add: sys_brk_def Let_def)

lemma sys_brk_set:
  "sys_brk s = sys_return (s\<lparr>program_break := arg s 0\<rparr>) (arg s 0)"
  if "code_segment_end s \<le> arg s 0"
proof (cases "program_break s = arg s 0")
  case True
  have "s\<lparr>program_break := program_break s\<rparr> = s" by simp
  with True have eq: "s\<lparr>program_break := arg s 0\<rparr> = s" by simp
  have "sys_brk s = sys_return s (arg s 0)"
    using True that by (simp add: sys_brk_def Let_def)
  then show ?thesis unfolding eq .
next
  case False
  with that show ?thesis by (simp add: sys_brk_def Let_def)
qed

text \<open>
  Claim C5, amended. On every state: \<open>sys_brk\<close> with \<open>addr = 0\<close>, when
  \<open>code_segment_end\<close> is positive, returns the current break and leaves it
  unchanged; with \<open>addr < code_segment_end\<close> it changes nothing but the accumulator,
  which receives the current break; with \<open>addr \<ge> code_segment_end\<close> it sets the
  break exactly to \<open>addr\<close> (above or below the current break) and returns it.
\<close>

theorem sys_brk_cases:
  "(arg s 0 = 0 \<and> 0 < code_segment_end s \<longrightarrow>
      program_break (sys_brk s) = program_break s \<and>
      eax (sys_brk s) = word_of_int (program_break s)) \<and>
   (arg s 0 < code_segment_end s \<longrightarrow>
      sys_brk s = sys_return s (program_break s) \<and>
      program_break (sys_brk s) = program_break s \<and>
      eax (sys_brk s) = word_of_int (program_break s)) \<and>
   (code_segment_end s \<le> arg s 0 \<longrightarrow>
      program_break (sys_brk s) = arg s 0 \<and>
      eax (sys_brk s) = word_of_int (arg s 0) \<and>
      sys_brk s = sys_return (s\<lparr>program_break := arg s 0\<rparr>) (arg s 0))"
proof -
  have below: "program_break (sys_brk s) = program_break s \<and>
      eax (sys_brk s) = word_of_int (program_break s) \<and>
      sys_brk s = sys_return s (program_break s)" if "arg s 0 < code_segment_end s"
    using sys_brk_below [OF that] by (simp add: sys_return_def set_eax_def eax_def)
  have above: "program_break (sys_brk s) = arg s 0 \<and>
      eax (sys_brk s) = word_of_int (arg s 0) \<and>
      sys_brk s = sys_return (s\<lparr>program_break := arg s 0\<rparr>) (arg s 0)"
    if "code_segment_end s \<le> arg s 0"
    using sys_brk_set [OF that] by (simp add: sys_return_def set_eax_def eax_def)
  show ?thesis using below above by auto
qed

text \<open>
  A query that returns the break 120; a request below \<open>code_segment_end\<close> that
  leaves the break at 50; a request that raises the break from 120 to 150.
\<close>

theorem sys_brk_cases_witness:
  "program_break (sys_brk ex_brk_state) = 120 \<and> eax (sys_brk ex_brk_state) = 120 \<and>
   program_break (sys_brk ex_brk_low_state) = 50 \<and> eax (sys_brk ex_brk_low_state) = 50 \<and>
   program_break (sys_brk ex_brk_raise_state) = 150 \<and> eax (sys_brk ex_brk_raise_state) = 150"
proof -
  have q: "arg ex_brk_state 0 = 0 \<and> 0 < code_segment_end ex_brk_state"
    by (simp add: arg_simps ex_brk_state_def VM_init_def)
  have l: "arg ex_brk_low_state 0 < code_segment_end ex_brk_low_state"
    by (simp add: arg_simps ex_brk_low_state_def VM_init_def)
  have u: "code_segment_end ex_brk_raise_state \<le> arg ex_brk_raise_state 0"
    by (simp add: arg_simps ex_brk_raise_state_def VM_init_def)
  have 1: "program_break (sys_brk ex_brk_state) = program_break ex_brk_state \<and>
           eax (sys_brk ex_brk_state) = word_of_int (program_break ex_brk_state)"
    using sys_brk_cases [of ex_brk_state] q by blast
  have 2: "program_break (sys_brk ex_brk_low_state) = program_break ex_brk_low_state \<and>
           eax (sys_brk ex_brk_low_state) = word_of_int (program_break ex_brk_low_state)"
    using sys_brk_cases [of ex_brk_low_state] l by blast
  have 3: "program_break (sys_brk ex_brk_raise_state) = arg ex_brk_raise_state 0 \<and>
           eax (sys_brk ex_brk_raise_state) = word_of_int (arg ex_brk_raise_state 0)"
    using sys_brk_cases [of ex_brk_raise_state] u by blast
  have v: "program_break ex_brk_state = 120" "program_break ex_brk_low_state = 50"
    "arg ex_brk_raise_state 0 = 150"
    by (simp_all add: arg_simps ex_brk_state_def ex_brk_low_state_def ex_brk_raise_state_def
        VM_init_def)
  show ?thesis using 1 2 3 by (simp add: v)
qed

text \<open>
  Claim C5 as stated fails in two states. With \<open>code_segment_end = 0\<close> and the
  break at 5, \<open>sys_brk\<close> with \<open>addr = 0\<close> moves the break to 0 and returns 0. With
  \<open>code_segment_end = 100\<close> and the break at 50, \<open>addr = 70\<close> is above the current
  break and the break stays at 50.
\<close>

theorem sys_brk_counterexample:
  "arg ex_brk_query_state 0 = 0 \<and>
   program_break ex_brk_query_state = 5 \<and>
   program_break (sys_brk ex_brk_query_state) = 0 \<and>
   eax (sys_brk ex_brk_query_state) = 0 \<and>
   program_break ex_brk_low_state < arg ex_brk_low_state 0 \<and>
   arg ex_brk_low_state 0 = 70 \<and>
   program_break (sys_brk ex_brk_low_state) = 50"
  by (simp add: sys_brk_def Let_def arg_simps sys_return_def set_eax_def eax_def
      ex_brk_query_state_def ex_brk_low_state_def VM_init_def)

subsection \<open>llseek\<close>

lemma low_word_of_offset:
  assumes "0 \<le> lo" "lo < 2 ^ 32"
  shows "(push_bit 32 hi OR lo) AND 0xFFFFFFFF = (lo::int)"
proof -
  have "(0xFFFFFFFF::int) = mask 32" by (simp add: mask_eq_exp_minus_1)
  then have "(push_bit 32 hi OR lo) AND 0xFFFFFFFF = take_bit 32 (push_bit 32 hi OR lo)"
    by (simp only: take_bit_eq_mask)
  also have "\<dots> = take_bit 32 lo"
    by (simp add: take_bit_push_bit)
  also have "\<dots> = lo" using assms by (simp add: take_bit_int_eq_self)
  finally show ?thesis .
qed

text \<open>
  Claim C7, amended. For every call of \<open>sys_llseek\<close> whose descriptor is open and
  has a file number: the two offset arguments are combined into
  \<open>(offset_high << 32) | offset_low\<close> and masked with \<open>0xFFFFFFFF\<close>, which leaves
  \<open>offset_low\<close>; the host seek is performed at \<open>offset_low\<close>; on success the
  resulting position is written, as 4 little-endian bytes, at \<open>result_addr\<close> (when
  these 4 bytes lie inside guest memory) and the accumulator receives 0; on a host
  OSError the accumulator receives -1 and nothing else changes.
\<close>

theorem sys_llseek_low_word:
  assumes fd: "descriptor s (arg s 0) = Inr (Some f)" and fileno: "h_fileno h f = Inr n"
  shows "(push_bit 32 (arg s 1) OR arg s 2) AND 0xFFFFFFFF = arg s 2 \<and>
         (h_os_lseek h n (arg s 2) (arg s 4) = Inr pos \<and> in_bounds s (arg s 3) 4 \<longrightarrow>
            (\<exists>s'. sys_llseek h s = Inr s' \<and> eax s' = 0 \<and>
                  mem_get s' (arg s 3) 4 = Inr (le_bytes 4 pos))) \<and>
         (h_os_lseek h n (arg s 2) (arg s 4) = Inl e \<and> is_OSError e \<longrightarrow>
            sys_llseek h s = Inr (sys_return s (- 1)) \<and> eax (sys_return s (- 1)) = - 1)"
proof -
  have low: "(push_bit 32 (arg s 1) OR arg s 2) AND 0xFFFFFFFF = arg s 2"
    by (rule low_word_of_offset) (rule arg_range)+
  have call: "on_descriptor s (arg s 0) (\<lambda>f. andThen (h_fileno h f)
                (\<lambda>n. h_os_lseek h n ((push_bit 32 (arg s 1) OR arg s 2) AND 0xFFFFFFFF) (arg s 4)))
              = h_os_lseek h n (arg s 2) (arg s 4)"
    unfolding low by (simp add: on_descriptor_def fd fileno andThen_def)
  have ok: "\<exists>s'. sys_llseek h s = Inr s' \<and> eax s' = 0 \<and>
                  mem_get s' (arg s 3) 4 = Inr (le_bytes 4 pos)"
    if r: "h_os_lseek h n (arg s 2) (arg s 4) = Inr pos" and b: "in_bounds s (arg s 3) 4"
  proof -
    obtain s1 where s1: "mem_set s (arg s 3) (le_bytes 4 pos) = Inr s1"
      using b by (simp add: mem_set_def)
    have "sys_llseek h s = Inr (sys_return s1 0)"
      unfolding sys_llseek_def Let_def call r by (simp add: mem_set_int_def s1 andThen_def)
    moreover have "mem_get s1 (arg s 3) 4 = Inr (le_bytes 4 pos)"
      using mem_set_get [OF s1] by simp
    ultimately show ?thesis by simp
  qed
  have err: "sys_llseek h s = Inr (sys_return s (- 1))"
    if r: "h_os_lseek h n (arg s 2) (arg s 4) = Inl e" and e: "is_OSError e"
    unfolding sys_llseek_def Let_def call r using e by simp
  show ?thesis using low ok err by simp
qed

text \<open>
  A seek with \<open>offset_high = 1\<close>, \<open>offset_low = 5\<close> on standard input ends at
  position 5, written at address 0; on a host whose seek fails with OSError the
  handler returns -1.
\<close>

theorem sys_llseek_low_word_witness:
  "(\<exists>s'. sys_llseek ex_host ex_llseek_low_state = Inr s' \<and> eax s' = 0 \<and>
         mem_get s' 0 4 = Inr [5, 0, 0, 0]) \<and>
   sys_llseek (ex_host\<lparr>h_os_lseek := \<lambda>fd pos whence. Inl OSError\<rparr>) ex_llseek_low_state =
     Inr (sys_return ex_llseek_low_state (- 1))"
proof -
  let ?failing = "ex_host\<lparr>h_os_lseek := \<lambda>fd pos whence. Inl OSError\<rparr>"
  have fd: "descriptor ex_llseek_low_state (arg ex_llseek_low_state 0) = Inr (Some Stdin)"
    by (simp add: descriptor_def arg_simps ex_llseek_low_state_def VM_init_def)
  have fileno: "h_fileno ex_host Stdin = Inr 0" "h_fileno ?failing Stdin = Inr 0"
    by (simp_all add: ex_host_def)
  have r: "h_os_lseek ex_host 0 (arg ex_llseek_low_state 2) (arg ex_llseek_low_state 4) = Inr 5"
    by (simp add: ex_host_def arg_simps ex_llseek_low_state_def VM_init_def)
  have e: "h_os_lseek ?failing 0 (arg ex_llseek_low_state 2) (arg ex_llseek_low_state 4)
             = Inl OSError \<and> is_OSError OSError"
    by (simp add: is_OSError_def)
  have b: "in_bounds ex_llseek_low_state (arg ex_llseek_low_state 3) 4"
    by (simp add: in_bounds_def arg_simps ex_llseek_low_state_def VM_init_def)
  have a3: "arg ex_llseek_low_state 3 = 0"
    by (simp add: arg_simps ex_llseek_low_state_def VM_init_def)
  have 1: "\<exists>s'. sys_llseek ex_host ex_llseek_low_state = Inr s' \<and> eax s' = 0 \<and>
         mem_get s' 0 4 = Inr [5, 0, 0, 0]"
    using sys_llseek_low_word [OF fd fileno(1), of 5 OSError] r b
    by (simp add: a3 le_bytes_widths)
  have 2: "sys_llseek ?failing ex_llseek_low_state = Inr (sys_return ex_llseek_low_state (- 1))"
    using sys_llseek_low_word [OF fd fileno(2), of 5 OSError] e by blast
  show ?thesis using 1 2 by blast
qed

text \<open>
  Claim C7 as stated fails: with \<open>offset_high = 1\<close> and \<open>offset_low = 0\<close> the
  full offset is \<open>2 ^ 32\<close>, where a seek fails on the example host; the handler
  seeks at 0, succeeds, writes position 0 and returns 0.
\<close>

theorem sys_llseek_counterexample:
  "push_bit 32 (arg ex_llseek_state 1) OR arg ex_llseek_state 2 = 2 ^ 32 \<and>
   h_os_lseek ex_host 0 (2 ^ 32) (arg ex_llseek_state 4) = Inl OSError \<and>
   h_os_lseek ex_host 0 0 (arg ex_llseek_state 4) = Inr 0 \<and>
   sys_llseek ex_host ex_llseek_state =
     Inr (ex_llseek_state\<lparr>mem := [0, 0, 0, 0, 9, 9, 9, 9], reg := (\<lambda>_. 0)(1 := 1, 0 := 0)\<rparr>)"
  by (simp add: sys_llseek_def Let_def arg_simps on_descriptor_def descriptor_def andThen_def
      ex_host_def ex_llseek_state_def VM_init_def mem_set_int_def mem_set_def in_bounds_def
      sys_return_def set_eax_def le_bytes_widths is_OSError_def)

subsection \<open>open and close\<close>

lemma ex_path_read: "read_string ex_path_state 0 = Inr [0x61]"
  by (simp add: read_string_def mem_get_def in_bounds_def ex_path_state_def VM_init_def)

lemma ex_bad_path_read: "read_string ex_bad_path_state 0 = Inr [0xFF]"
  by (simp add: read_string_def mem_get_def in_bounds_def ex_bad_path_state_def VM_init_def)

text \<open>
  Claim C10, amended. For every call of \<open>sys_open\<close> whose flags argument is 0 and
  whose pathname argument is read and decoded without error (a zero-terminated UTF-8
  string inside guest memory), the handler writes -1 to the accumulator and leaves
  the descriptor table unchanged, whatever the host says about the path.
\<close>

theorem sys_open_flags_zero:
  assumes flags: "arg s 1 = 0"
    and raw: "read_string s (arg s 0) = Inr raw"
    and path: "decode raw = Inr pathname"
  shows "sys_open h s = Inr (sys_return s (- 1)) \<and>
         eax (sys_return s (- 1)) = - 1 \<and>
         descriptors (sys_return s (- 1)) = descriptors s"
  using flags by (simp add: sys_open_def Let_def raw path andThen_def O_RDONLY_def)

theorem sys_open_flags_zero_witness:
  "sys_open ex_host ex_path_state = Inr (sys_return ex_path_state (- 1)) \<and>
   descriptors (sys_return ex_path_state (- 1)) = [Some Stdin, Some Stdout, Some Stderr]"
proof -
  have flags: "arg ex_path_state (Suc 0) = 0" and a: "arg ex_path_state 0 = 0"
    by (simp_all add: arg_simps ex_path_state_def VM_init_def)
  have raw: "read_string ex_path_state (arg ex_path_state 0) = Inr [0x61]"
    unfolding a by (rule ex_path_read)
  have path: "decode [0x61] = Inr [97]" by (simp add: andThen_def)
  have d: "descriptors ex_path_state = [Some Stdin, Some Stdout, Some Stderr]"
    by (simp add: ex_path_state_def VM_init_def)
  show ?thesis
    using sys_open_flags_zero [of ex_path_state "[0x61]" "[97]" ex_host] flags raw path
    by (simp add: d)
qed

text \<open>
  Claim C10 as stated fails: with flags 0 and the pathname bytes \<open>0xFF 0x00\<close>,
  \<open>decode\<close> raises UnicodeDecodeError, which leaves the handler; nothing is
  written to the accumulator.
\<close>

theorem sys_open_flags_zero_counterexample:
  "arg ex_bad_path_state 1 = 0 \<and> sys_open ex_host ex_bad_path_state = Inl UnicodeDecodeError"
proof -
  have flags: "arg ex_bad_path_state (Suc 0) = 0" and a: "arg ex_bad_path_state 0 = 0"
    by (simp_all add: arg_simps ex_bad_path_state_def VM_init_def)
  have path: "decode [0xFF] = Inl UnicodeDecodeError" by simp
  show ?thesis
    by (simp add: sys_open_def Let_def a flags ex_bad_path_read path andThen_def)
qed

lemma first_free_nonneg: "first_free k xs = - 1 \<or> int k \<le> first_free k xs"
  by (induction xs arbitrary: k) (auto, force)

lemma first_free_none: "(first_free k xs = - 1) = (None \<notin> set xs)"
proof (induction xs arbitrary: k)
  case Nil then show ?case by simp
next
  case (Cons x xs) then show ?case by auto
qed

lemma first_free_index:
  assumes "None \<in> set xs"
  shows "\<exists>i<length xs. first_free k xs = int (k + i) \<and> xs ! i = None \<and> (\<forall>j<i. xs ! j \<noteq> None)"
  using assms
proof (induction xs arbitrary: k)
  case Nil then show ?case by simp
next
  case (Cons x xs)
  show ?case
  proof (cases "x = None")
    case True
    then show ?thesis by (intro exI [of _ 0]) simp
  next
    case False
    with Cons.prems have "None \<in> set xs" by auto
    from Cons.IH [OF this, of "Suc k"] obtain i where i: "i < length xs"
      "first_free (Suc k) xs = int (Suc k + i)" "xs ! i = None" "\<forall>j<i. xs ! j \<noteq> None"
      by blast
    have "\<forall>j<Suc i. (x # xs) ! j \<noteq> None"
      using False i(4) by (auto simp: nth_Cons split: nat.splits)
    with False i show ?thesis by (intro exI [of _ "Suc i"]) simp
  qed
qed

lemma open_file_placed:
  assumes "open_file h name mode s = Inr (descr, s')"
  shows "\<exists>d f. descr = int d \<and> placed_lowest_free (descriptors s) d f (descriptors s')"
proof (cases "None \<in> set (descriptors s)")
  case True
  from first_free_index [OF True, of 0] obtain i where i: "i < length (descriptors s)"
    "first_free 0 (descriptors s) = int i" "descriptors s ! i = None"
    "\<forall>j<i. descriptors s ! j \<noteq> None" by auto
  from assms i obtain f where "descr = int i" "descriptors s' = (descriptors s)[i := Some f]"
    by (auto simp: open_file_def Let_def andThen_def split: sum.splits)
  with i show ?thesis by (auto simp: placed_lowest_free_def)
next
  case False
  then have ff: "first_free 0 (descriptors s) = - 1" by (simp add: first_free_none)
  have all: "\<forall>j<length (descriptors s). descriptors s ! j \<noteq> None"
    using False by (metis nth_mem)
  from assms ff obtain f where "descr = int (length (descriptors s))"
    "descriptors s' = descriptors s @ [Some f]"
    by (auto simp: open_file_def Let_def andThen_def split: sum.splits)
  with all show ?thesis by (auto simp: placed_lowest_free_def)
qed

lemma sys_open_outcome:
  assumes "sys_open h s = Inr s'"
  shows "(descriptors s' = descriptors s \<and> eax s' = - 1) \<or>
         (\<exists>d f. placed_lowest_free (descriptors s) d f (descriptors s') \<and> eax s' = word_of_int (int d))"
proof -
  have opened: "\<exists>d f. placed_lowest_free (descriptors s) d f (descriptors (sys_return s1 descr)) \<and>
                   eax (sys_return s1 descr) = word_of_int (int d)"
    if "open_file h name mode s = Inr (descr, s1)" for name mode descr s1
    using open_file_placed [OF that] by auto
  from assms show ?thesis
    by (auto simp: sys_open_def Let_def andThen_def split: sum.splits if_splits dest!: opened)
qed

lemma sys_close_outcome:
  assumes "sys_close h s = Inr s'"
  shows "(descriptors s' = descriptors s \<and> eax s' = - 1) \<or>
         (\<exists>fd<length (descriptors s). arg s 0 = int fd \<and> descriptors s ! fd \<noteq> None \<and>
             descriptors s' = (descriptors s)[fd := None] \<and> eax s' = 0)"
proof (cases "int (length (descriptors s)) \<le> arg s 0")
  case True
  with assms show ?thesis by (auto simp: sys_close_def Let_def)
next
  case False
  define fd where "fd = nat (arg s 0)"
  have fd: "fd < length (descriptors s)" "arg s 0 = int fd"
    using False arg_range(1) [of s 0] by (auto simp: fd_def)
  show ?thesis
  proof (cases "descriptors s ! fd")
    case None
    with assms False show ?thesis by (auto simp: sys_close_def Let_def fd_def)
  next
    case (Some f)
    with assms False have "descriptors s' = (descriptors s)[fd := None] \<and> eax s' = 0"
      by (auto simp: sys_close_def Let_def fd_def andThen_def split: sum.splits)
    with fd Some show ?thesis by auto
  qed
qed

lemma mem_set_descriptors: "mem_set s a d = Inr s' \<Longrightarrow> descriptors s' = descriptors s"
  by (auto simp: mem_set_def split: if_splits)

lemma descriptors_kept:
  "sys_read h s = Inr t \<Longrightarrow> descriptors t = descriptors s"
  "sys_write h s = Inr t \<Longrightarrow> descriptors t = descriptors s"
  "sys_llseek h s = Inr t \<Longrightarrow> descriptors t = descriptors s"
  "sys_mmap_pgoff s = Inr t \<Longrightarrow> descriptors t = descriptors s"
  "sys_exit h s = Inr t \<Longrightarrow> descriptors t = descriptors s"
  "descriptors (sys_brk s) = descriptors s"
  "descriptors (sys_munmap s) = descriptors s"
  by (auto simp: sys_read_def sys_read_store_def sys_write_def sys_llseek_def mem_set_int_def
      sys_mmap_pgoff_def memset_def sys_exit_def sys_brk_def sys_munmap_def Let_def andThen_def
      split: sum.splits if_splits option.splits dest: mem_set_descriptors)

text \<open>
  Claim C4, amended. Slots 0, 1 and 2 hold the standard streams at construction.
  \<open>sys_close\<close> either fails (-1, table unchanged) or frees exactly the open slot
  whose number it is given, slots 0, 1 and 2 included. In every state whose slots
  0, 1 and 2 are occupied, \<open>sys_open\<close> either fails (-1, table unchanged) or
  places the new stream in the lowest-numbered free slot, which is then \<ge> 3, and
  grows the table only when no slot is free. The read, write, llseek, mmap, exit, brk
  and munmap handlers leave the table as it is.
\<close>

theorem descriptor_table_policy:
  "descriptors (VM_init memsize) = [Some Stdin, Some Stdout, Some Stderr] \<and>
   (sys_close h s = Inr s' \<longrightarrow>
      (descriptors s' = descriptors s \<and> eax s' = - 1) \<or>
      (\<exists>fd<length (descriptors s). arg s 0 = int fd \<and> descriptors s ! fd \<noteq> None \<and>
          descriptors s' = (descriptors s)[fd := None] \<and> eax s' = 0)) \<and>
   (sys_open h s = Inr s'' \<and> 3 \<le> length (descriptors s) \<and>
    (\<forall>i<3. descriptors s ! i \<noteq> None) \<longrightarrow>
      (descriptors s'' = descriptors s \<and> eax s'' = - 1) \<or>
      (\<exists>d f. 3 \<le> d \<and> placed_lowest_free (descriptors s) d f (descriptors s'') \<and>
             eax s'' = word_of_int (int d))) \<and>
   (sys_read h s = Inr t \<or> sys_write h s = Inr t \<or> sys_llseek h s = Inr t \<or>
    sys_mmap_pgoff s = Inr t \<or> sys_exit h s = Inr t \<or> sys_brk s = t \<or> sys_munmap s = t
      \<longrightarrow> descriptors t = descriptors s)"
proof -
  have init: "descriptors (VM_init memsize) = [Some Stdin, Some Stdout, Some Stderr]"
    by (simp add: VM_init_def)
  have "(descriptors s'' = descriptors s \<and> eax s'' = - 1) \<or>
      (\<exists>d f. 3 \<le> d \<and> placed_lowest_free (descriptors s) d f (descriptors s'') \<and>
             eax s'' = word_of_int (int d))"
    if o: "sys_open h s = Inr s''" and len: "3 \<le> length (descriptors s)"
      and std: "\<forall>i<3. descriptors s ! i \<noteq> None"
  proof -
    have "3 \<le> d" if p: "placed_lowest_free (descriptors s) d f tab" for d f tab
    proof (rule ccontr)
      assume "\<not> 3 \<le> d"
      then have d: "d < 3" by simp
      with len have "d < length (descriptors s)" by simp
      with p have "descriptors s ! d = None" by (simp add: placed_lowest_free_def)
      with std d show False by force
    qed
    with sys_open_outcome [OF o] show ?thesis by blast
  qed
  moreover have "descriptors t = descriptors s"
    if "sys_read h s = Inr t \<or> sys_write h s = Inr t \<or> sys_llseek h s = Inr t \<or>
        sys_mmap_pgoff s = Inr t \<or> sys_exit h s = Inr t \<or> sys_brk s = t \<or> sys_munmap s = t"
    using that descriptors_kept by blast
  ultimately show ?thesis using init sys_close_outcome [of h s s'] by blast
qed

text \<open>
  On a table with slots 4 and 6 free, \<open>sys_close\<close> of descriptor 0 frees slot 0,
  \<open>sys_open\<close> (for writing, with truncation) places the new stream in slot 4, and
  \<open>sys_brk\<close> leaves the table alone.
\<close>

theorem descriptor_table_policy_witness:
  "\<exists>s' s''. sys_close ex_host ex_open_state = Inr s' \<and>
      sys_open ex_host ex_open_state = Inr s'' \<and>
      ((descriptors s' = descriptors ex_open_state \<and> eax s' = - 1) \<or>
       (\<exists>fd<length (descriptors ex_open_state). arg ex_open_state 0 = int fd \<and>
           descriptors ex_open_state ! fd \<noteq> None \<and>
           descriptors s' = (descriptors ex_open_state)[fd := None] \<and> eax s' = 0)) \<and>
      ((descriptors s'' = descriptors ex_open_state \<and> eax s'' = - 1) \<or>
       (\<exists>d f. 3 \<le> d \<and> placed_lowest_free (descriptors ex_open_state) d f (descriptors s'') \<and>
              eax s'' = word_of_int (int d))) \<and>
      descriptors s' = [None, Some Stdout, Some Stderr, Some (HostFile 5),
                        None, Some (HostFile 6), None] \<and>
      eax s' = 0 \<and>
      descriptors s'' = [Some Stdin, Some Stdout, Some Stderr, Some (HostFile 5),
                         Some (HostFile 7), Some (HostFile 6), None] \<and>
      eax s'' = 4 \<and>
      descriptors (sys_brk ex_open_state) = descriptors ex_open_state"
proof -
  have c: "sys_close ex_host ex_open_state =
             Inr (sys_return (ex_open_state\<lparr>descriptors := (descriptors ex_open_state)[0 := None]\<rparr>) 0)"
    by (simp add: sys_close_def Let_def arg_simps ex_host_def andThen_def ex_open_state_def
        VM_init_def)
  have a: "arg ex_open_state 0 = 0" "arg ex_open_state (Suc 0) = 513"
    by (simp_all add: arg_simps ex_open_state_def VM_init_def)
  have raw: "read_string ex_open_state 0 = Inr [0x61]"
    by (simp add: read_string_def mem_get_def in_bounds_def ex_open_state_def VM_init_def)
  have path: "decode [0x61] = Inr [97]" by (simp add: andThen_def)
  have ff: "first_free 0 (descriptors ex_open_state) = 4"
    by (simp add: ex_open_state_def VM_init_def)
  have o: "sys_open ex_host ex_open_state =
             Inr (sys_return (ex_open_state\<lparr>descriptors :=
                    (descriptors ex_open_state)[4 := Some (HostFile 7)]\<rparr>) 4)"
    by (simp add: sys_open_def Let_def a raw path andThen_def O_RDONLY_def O_WRONLY_def
        O_TRUNC_def open_file_def ff ex_host_def)
  have std: "3 \<le> length (descriptors ex_open_state) \<and>
             (\<forall>i<3. descriptors ex_open_state ! i \<noteq> None)"
    by (simp add: ex_open_state_def VM_init_def less_Suc_eq numeral_3_eq_3)
  define s' where "s' = sys_return (ex_open_state\<lparr>descriptors := (descriptors ex_open_state)[0 := None]\<rparr>) 0"
  define s'' where "s'' = sys_return (ex_open_state\<lparr>descriptors :=
                    (descriptors ex_open_state)[4 := Some (HostFile 7)]\<rparr>) 4"
  have c': "sys_close ex_host ex_open_state = Inr s'" using c by (simp only: s'_def)
  have o': "sys_open ex_host ex_open_state = Inr s''" using o by (simp only: s''_def)
  note pol = descriptor_table_policy [of 4 ex_host ex_open_state s' s'' "sys_brk ex_open_state"]
  have 1: "(descriptors s' = descriptors ex_open_state \<and> eax s' = - 1) \<or>
       (\<exists>fd<length (descriptors ex_open_state). arg ex_open_state 0 = int fd \<and>
           descriptors ex_open_state ! fd \<noteq> None \<and>
           descriptors s' = (descriptors ex_open_state)[fd := None] \<and> eax s' = 0)"
    using pol c' by blast
  have 2: "(descriptors s'' = descriptors ex_open_state \<and> eax s'' = - 1) \<or>
       (\<exists>d f. 3 \<le> d \<and> placed_lowest_free (descriptors ex_open_state) d f (descriptors s'') \<and>
              eax s'' = word_of_int (int d))"
    using pol o' std by blast
  have 3: "descriptors s' = [None, Some Stdout, Some Stderr, Some (HostFile 5),
                        None, Some (HostFile 6), None]" "eax s' = 0"
    "descriptors s'' = [Some Stdin, Some Stdout, Some Stderr, Some (HostFile 5),
                         Some (HostFile 7), Some (HostFile 6), None]" "eax s'' = 4"
    by (simp_all add: s'_def s''_def ex_open_state_def VM_init_def)
  have 4: "descriptors (sys_brk ex_open_state) = descriptors ex_open_state"
    using pol by blast
  show ?thesis using c' o' 1 2 3 4 by blast
qed

text \<open>
  Claim C4 as stated fails: on the freshly constructed table \<open>sys_close\<close> of
  descriptor 0 succeeds and sets slot 0 to the free sentinel; a following
  \<open>sys_open\<close> places its stream in slot 0.
\<close>

theorem descriptor_table_policy_counterexample:
  "sys_close ex_host ex_close_state =
     Inr (ex_close_state\<lparr>descriptors := [None, Some Stdout, Some Stderr]\<rparr>) \<and>
   sys_open ex_host ex_reopen_state =
     Inr (ex_reopen_state\<lparr>descriptors := [Some (HostFile 7), Some Stdout, Some Stderr]\<rparr>)"
proof -
  have c: "sys_close ex_host ex_close_state =
     Inr (ex_close_state\<lparr>descriptors := [None, Some Stdout, Some Stderr]\<rparr>)"
    by (simp add: sys_close_def Let_def arg_simps ex_host_def andThen_def ex_close_state_def
        VM_init_def sys_return_def set_eax_def fun_upd_idem_iff)
  have a: "arg ex_reopen_state 0 = 0" "arg ex_reopen_state (Suc 0) = 513"
    by (simp_all add: arg_simps ex_reopen_state_def VM_init_def)
  have raw: "read_string ex_reopen_state 0 = Inr [0x61]"
    by (simp add: read_string_def mem_get_def in_bounds_def ex_reopen_state_def VM_init_def)
  have path: "decode [0x61] = Inr [97]" by (simp add: andThen_def)
  have ff: "first_free 0 (descriptors ex_reopen_state) = 0"
    by (simp add: ex_reopen_state_def VM_init_def)
  have o1: "sys_open ex_host ex_reopen_state =
     Inr (sys_return (ex_reopen_state\<lparr>descriptors :=
            (descriptors ex_reopen_state)[0 := Some (HostFile 7)]\<rparr>) 0)"
    by (simp add: sys_open_def Let_def a raw path andThen_def O_RDONLY_def O_WRONLY_def
        O_TRUNC_def open_file_def ff ex_host_def)
  have e: "sys_return (ex_reopen_state\<lparr>descriptors :=
            (descriptors ex_reopen_state)[0 := Some (HostFile 7)]\<rparr>) 0 =
           ex_reopen_state\<lparr>descriptors := [Some (HostFile 7), Some Stdout, Some Stderr]\<rparr>"
    by (simp add: sys_return_def set_eax_def ex_reopen_state_def VM_init_def fun_upd_idem_iff)
  have o: "sys_open ex_host ex_reopen_state =
     Inr (ex_reopen_state\<lparr>descriptors := [Some (HostFile 7), Some Stdout, Some Stderr]\<rparr>)"
    using o1 by (simp only: e)
  show ?thesis using c o by simp
qed

end
